theory Spec2Isabelle
  imports Main "HOL-Library.Word" "HOL-Library.AList"
begin

section \<open>JavaScript values\<close>

text \<open>
  The server (\<^verbatim>\<open>src/unnamed/part_000\<close>) is a Node.js program. A JavaScript string is a
  sequence of UTF-16 code units: \<^verbatim>\<open>length\<close> and \<^verbatim>\<open>substring\<close> count code units, and
  the source has Arabic literals, so a string is a list of 16-bit words. \<open>lit\<close> writes
  a Basic Latin literal.
\<close>

type_synonym jsstring = "16 word list"

definition lit :: "string \<Rightarrow> jsstring" where
  "lit s = map (\<lambda>c. of_nat (of_char c)) s"

text \<open>
  The values a payload field can hold. A number is an integer from \<open>- 2^53\<close> to
  \<open>2^53 - 1\<close>, a signed word of 54 bits: every such integer is a JavaScript number, and
  \<^verbatim>\<open>String\<close> prints it as its decimal numeral. The other numbers (fractions, NaN, the
  integers beyond that range, which \<^verbatim>\<open>String\<close> prints rounded or with an exponent), and
  fields holding arrays, functions or nested objects, are outside the model.
\<close>

datatype jsval = JUndefined | JNull | JBool bool | JNum "54 word" | JStr jsstring

datatype js_error = TypeError

fun truthy :: "jsval \<Rightarrow> bool" where
  "truthy JUndefined = False"
| "truthy JNull = False"
| "truthy (JBool b) = b"
| "truthy (JNum n) = (n \<noteq> 0)"
| "truthy (JStr s) = (s \<noteq> [])"

text \<open>\<^verbatim>\<open>a || b\<close>\<close>

definition js_or :: "jsval \<Rightarrow> jsval \<Rightarrow> jsval" where
  "js_or a b = (if truthy a then a else b)"

fun dec_nat :: "nat \<Rightarrow> jsstring" where
  "dec_nat n = (if n < 10 then [of_nat (48 + n)] else dec_nat (n div 10) @ [of_nat (48 + n mod 10)])"

declare dec_nat.simps [simp del]

definition dec_int :: "int \<Rightarrow> jsstring" where
  "dec_int i = (if i < 0 then lit ''-'' @ dec_nat (nat (- i)) else dec_nat (nat i))"

text \<open>\<^verbatim>\<open>String(v)\<close>, also what a template literal does to an interpolated value.\<close>

fun js_String :: "jsval \<Rightarrow> jsstring" where
  "js_String JUndefined = lit ''undefined''"
| "js_String JNull = lit ''null''"
| "js_String (JBool b) = (if b then lit ''true'' else lit ''false'')"
| "js_String (JNum n) = dec_int (sint n)"
| "js_String (JStr s) = s"

text \<open>
  \<^verbatim>\<open>v.toLowerCase()\<close>: a method of strings only; on any other value the call throws a
  TypeError (\<open>None\<close>). The case conversion of the language is not part of the
  program: it is the parameter \<open>lower\<close> of every function that uses it, and what is
  proved holds for every such function.
\<close>

fun toLowerCase :: "(jsstring \<Rightarrow> jsstring) \<Rightarrow> jsval \<Rightarrow> jsstring option" where
  "toLowerCase lower (JStr s) = Some (lower s)"
| "toLowerCase lower v = None"

section \<open>Payloads, rows and events\<close>

type_synonym socket_id = jsstring

text \<open>An entry of a room's participant map: \<^verbatim>\<open>{ userId, userName, role }\<close>.\<close>

record participant =
  userId :: jsval
  userName :: jsval
  role :: jsval

text \<open>The payload of \<^verbatim>\<open>register_user\<close>: \<^verbatim>\<open>{ id, name, role, studyType }\<close>.\<close>

record user_data =
  u_id :: jsval
  u_name :: jsval
  u_role :: jsval
  u_studyType :: jsval

text \<open>
  The payload of \<^verbatim>\<open>join_room\<close>: a primitive value, or an object whose absent
  properties read as \<open>JUndefined\<close>.
\<close>

record join_payload =
  jp_roomId :: jsval
  jp_room :: jsval
  jp_userId :: jsval
  jp_userName :: jsval
  jp_role :: jsval

datatype join_data = JPrim jsval | JObj join_payload

text \<open>
  The payload of \<^verbatim>\<open>leave_room\<close>, destructured as \<^verbatim>\<open>({ roomId })\<close>: destructuring
  \<^verbatim>\<open>undefined\<close> or \<^verbatim>\<open>null\<close> throws, any other payload yields its \<^verbatim>\<open>roomId\<close> property.
\<close>

datatype leave_data = LeaveNullish | LeavePayload jsval

text \<open>The payload of \<^verbatim>\<open>send_message\<close>.\<close>

record message_data =
  md_room :: jsval
  md_sender_id :: jsval
  md_sender_name :: jsval
  md_content :: jsval
  md_type :: jsval
  md_file_path :: jsval
  md_tempId :: jsval
  md_role :: jsval
  md_avatar :: jsval
  md_studyType :: jsval

text \<open>The object \<^verbatim>\<open>messageToSend\<close> built in the callback of the insert.\<close>

record out_message =
  m_id :: nat
  m_sender_id :: jsval
  m_sender_name :: jsval
  m_content :: jsval
  m_type :: jsval
  m_file_path :: jsval
  m_timestamp :: int
  m_tempId :: jsval
  m_role :: jsval
  m_avatar :: jsval
  m_studyType :: jsval

text \<open>The object \<^verbatim>\<open>sysMessage\<close> of the pin route.\<close>

record sys_message =
  s_id :: nat
  s_room :: jsstring
  s_sender_id :: int
  s_sender_name :: jsstring
  s_content :: jsval
  s_file_path :: jsstring
  s_type :: jsstring
  s_timestamp :: int

datatype chat_message = UserMessage out_message | SystemMessage sys_message

text \<open>
  The bound parameters of the two INSERT statements (the timestamps are computed by
  the database and left out).
\<close>

record message_row =
  r_room :: jsstring
  r_sender_id :: jsval
  r_sender_name :: jsval
  r_content :: jsval
  r_type :: jsval
  r_file_path :: jsval

record notification_row =
  n_user_id :: jsval
  n_title :: jsstring
  n_message :: jsval
  n_sender_id :: jsval
  n_sender_name :: jsval

datatype notification_data =
    ManualAlert jsval
  | PinnedMessage nat jsstring
  | LectureUpdate jsval

text \<open>The payload of \<^verbatim>\<open>new_notification\<close>; \<^verbatim>\<open>is_read\<close> is always 0.\<close>

record notification =
  nt_id :: nat
  nt_title :: jsstring
  nt_body :: jsval
  nt_created_at :: int
  nt_data :: notification_data

datatype event =
    ActiveStudentCount jsstring nat
  | ReceiveMessage chat_message
  | DashboardUpdate jsstring chat_message
  | NewNotification notification
  | MessagePinUpdated jsval jsval jsstring

text \<open>
  \<^verbatim>\<open>io.to(x).emit(...)\<close> addresses the transport room \<open>x\<close> (every socket is in the room
  named by its own id); \<^verbatim>\<open>io.emit(...)\<close> addresses every socket.
\<close>

datatype target = To jsstring | ToAll

text \<open>
  What a handler does to the outside, in order: events emitted, rows written with the
  generated id, HTTP responses, and an exception that reaches the top-level handler.
\<close>

datatype effect =
    Emit target event
  | InsertMessage nat message_row
  | InsertNotification nat notification_row
  | Respond nat
  | Uncaught js_error

section \<open>Server state\<close>

text \<open>
  The database as the core sees it: the generated ids of the two tables, and the
  outcomes of the coming statements (\<open>True\<close>: the statement fails; none left: it
  succeeds).
\<close>

record db_state =
  last_message_id :: nat
  last_notification_id :: nat
  faults :: "bool list"

text \<open>
  A JavaScript \<^verbatim>\<open>Map\<close> iterates in insertion order, so the two registries are
  association lists: \<^verbatim>\<open>set\<close> is \<open>AList.update\<close> (in place for a present key, at the
  end for a new one), \<^verbatim>\<open>delete\<close> is \<open>AList.delete\<close>, \<^verbatim>\<open>get\<close> is \<open>map_of\<close>.
  \<open>socket_rooms\<close> holds the pairs (socket, room) made by \<^verbatim>\<open>socket.join\<close>;
  \<open>timeouts\<close> the pending \<^verbatim>\<open>setTimeout\<close> callbacks with their due time.
\<close>

type_synonym participants = "(socket_id \<times> participant) list"

record server =
  roomParticipants :: "(jsstring \<times> participants) list"
  connectedUsers :: "(socket_id \<times> user_data) list"
  recentMessages :: "jsval \<rightharpoonup> int"
  timeouts :: "(int \<times> jsval) list"
  socket_rooms :: "(socket_id \<times> jsstring) set"
  db :: db_state

definition init_db :: db_state where
  "init_db = \<lparr>last_message_id = 0, last_notification_id = 0, faults = []\<rparr>"

text \<open>The server at start, with the outcomes of the statements to come.\<close>

definition init_server :: "bool list \<Rightarrow> server" where
  "init_server fs = \<lparr>roomParticipants = [], connectedUsers = [], recentMessages = Map.empty,
     timeouts = [], socket_rooms = {}, db = init_db\<lparr>faults := fs\<rparr>\<rparr>"

section \<open>Presence: registration, rooms, disconnect\<close>

definition emitActiveStudentCount :: "jsstring \<Rightarrow> (jsstring \<times> participants) list \<Rightarrow> effect list" where
  "emitActiveStudentCount room rp =
     (case map_of rp room of
        None \<Rightarrow> [Emit (To room) (ActiveStudentCount room 0)]
      | Some participants \<Rightarrow>
          [Emit (To room) (ActiveStudentCount room
             (length (filter (\<lambda>p. role p = JStr (lit ''student'')) (map snd participants))))])"

text \<open>\<open>None\<close>: the payload is \<^verbatim>\<open>undefined\<close> or \<^verbatim>\<open>null\<close>, and reading its property throws.\<close>

definition register_user :: "socket_id \<Rightarrow> user_data option \<Rightarrow> server \<Rightarrow> server \<times> effect list" where
  "register_user sid payload st =
     (case payload of
        None \<Rightarrow> (st, [Uncaught TypeError])
      | Some userData \<Rightarrow>
          (let normalizedData = userData\<lparr>u_studyType := js_or (u_studyType userData) (JStr (lit ''morning''))\<rparr>
           in (st\<lparr>connectedUsers := AList.update sid normalizedData (connectedUsers st)\<rparr>, [])))"

text \<open>
  The loop of the disconnect handler over the rooms, in the order of the map: the
  socket is deleted from the participant map of each room that has it, and the count of
  that room is published at once. The loop goes through the keys of the map and
  reaches the participant map of a room by its key.
\<close>

fun disconnect_rooms ::
  "socket_id \<Rightarrow> jsstring list \<Rightarrow> (jsstring \<times> participants) list \<Rightarrow> (jsstring \<times> participants) list \<times> effect list" where
  "disconnect_rooms sid [] rp = (rp, [])"
| "disconnect_rooms sid (room # rest) rp =
     (case map_of rp room of
        None \<Rightarrow> disconnect_rooms sid rest rp
      | Some participants \<Rightarrow>
          if map_of participants sid \<noteq> None then
            (let rp1 = AList.update room (AList.delete sid participants) rp;
                 (rp2, effs) = disconnect_rooms sid rest rp1
             in (rp2, emitActiveStudentCount room rp1 @ effs))
          else disconnect_rooms sid rest rp)"

definition disconnect :: "socket_id \<Rightarrow> server \<Rightarrow> server \<times> effect list" where
  "disconnect sid st =
     (let users = AList.delete sid (connectedUsers st);
          (rp, effs) = disconnect_rooms sid (map fst (roomParticipants st)) (roomParticipants st)
      in (st\<lparr>connectedUsers := users, roomParticipants := rp\<rparr>, effs))"

text \<open>
  \<^verbatim>\<open>isPrimitive ? data : (data.roomId || data.room)\<close>, before \<^verbatim>\<open>String\<close>. Only strings
  and numbers count as primitive; a boolean has no such properties; \<^verbatim>\<open>undefined\<close>
  and \<^verbatim>\<open>null\<close> throw (\<open>None\<close>).
\<close>

fun join_roomId :: "join_data \<Rightarrow> jsval option" where
  "join_roomId (JPrim (JStr s)) = Some (JStr s)"
| "join_roomId (JPrim (JNum n)) = Some (JNum n)"
| "join_roomId (JPrim (JBool b)) = Some JUndefined"
| "join_roomId (JPrim JUndefined) = None"
| "join_roomId (JPrim JNull) = None"
| "join_roomId (JObj p) = Some (js_or (jp_roomId p) (jp_room p))"

text \<open>\<^verbatim>\<open>typeof data === 'object' ? data.f : null\<close>, for the three identity fields.\<close>

fun join_identity :: "join_data \<Rightarrow> participant" where
  "join_identity (JObj p) = \<lparr>userId = jp_userId p, userName = jp_userName p, role = jp_role p\<rparr>"
| "join_identity (JPrim v) = \<lparr>userId = JNull, userName = JNull, role = JNull\<rparr>"

definition join_room :: "socket_id \<Rightarrow> join_data \<Rightarrow> server \<Rightarrow> server \<times> effect list" where
  "join_room sid data st =
     (case join_roomId data of
        None \<Rightarrow> (st, [Uncaught TypeError])
      | Some raw \<Rightarrow>
          (let roomId = js_String raw; who = join_identity data in
           if roomId = [] \<or> roomId = lit ''undefined'' \<or> roomId = lit ''null'' then (st, [])
           else
             (let st1 = st\<lparr>socket_rooms := insert (sid, roomId) (socket_rooms st)\<rparr> in
              if truthy (userId who) \<and> truthy (userName who) \<and> truthy (role who) then
                (let rp0 = (if map_of (roomParticipants st1) roomId = None
                            then AList.update roomId [] (roomParticipants st1)
                            else roomParticipants st1);
                     rp1 = (case map_of rp0 roomId of
                              None \<Rightarrow> rp0
                            | Some participants \<Rightarrow> AList.update roomId (AList.update sid who participants) rp0)
                 in (st1\<lparr>roomParticipants := rp1\<rparr>, emitActiveStudentCount roomId rp1))
              else (st1, []))))"

text \<open>
  The keys of \<open>roomParticipants\<close> are strings, so \<^verbatim>\<open>has\<close> and \<^verbatim>\<open>get\<close> with a key that is
  not a string find nothing; the same holds for \<^verbatim>\<open>socket.leave\<close>.
\<close>

fun rooms_get :: "(jsstring \<times> participants) list \<Rightarrow> jsval \<Rightarrow> participants option" where
  "rooms_get rp (JStr r) = map_of rp r"
| "rooms_get rp v = None"

fun socket_leave :: "socket_id \<Rightarrow> jsval \<Rightarrow> (socket_id \<times> jsstring) set \<Rightarrow> (socket_id \<times> jsstring) set" where
  "socket_leave sid (JStr r) S = S - {(sid, r)}"
| "socket_leave sid v S = S"

definition leave_room :: "socket_id \<Rightarrow> leave_data \<Rightarrow> server \<Rightarrow> server \<times> effect list" where
  "leave_room sid data st =
     (case data of
        LeaveNullish \<Rightarrow> (st, [Uncaught TypeError])
      | LeavePayload roomId \<Rightarrow>
          (let st1 = st\<lparr>socket_rooms := socket_leave sid roomId (socket_rooms st)\<rparr> in
           case rooms_get (roomParticipants st1) roomId of
             None \<Rightarrow> (st1, [])
           | Some participants \<Rightarrow>
               (let rp1 = AList.update (js_String roomId) (AList.delete sid participants) (roomParticipants st1)
                in (st1\<lparr>roomParticipants := rp1\<rparr>, emitActiveStudentCount (js_String roomId) rp1))))"

section \<open>The database\<close>

text \<open>
  \<^verbatim>\<open>db.run\<close> of an INSERT: it fails (the callback gets \<^verbatim>\<open>err\<close>), or it writes the row and
  the callback reads the generated id in \<^verbatim>\<open>this.lastID\<close>. The callback is run at once,
  statement after statement, in the order of the calls, and reads the clock of the
  handler that queued the statement.
\<close>

fun next_fault :: "bool list \<Rightarrow> bool" where
  "next_fault [] = False"
| "next_fault (f # fs) = f"

definition insert_message :: "db_state \<Rightarrow> db_state \<times> nat option" where
  "insert_message d =
     (if next_fault (faults d) then (d\<lparr>faults := tl (faults d)\<rparr>, None)
      else (d\<lparr>last_message_id := Suc (last_message_id d), faults := tl (faults d)\<rparr>,
            Some (Suc (last_message_id d))))"

text \<open>
  The column \<^verbatim>\<open>message\<close> of the notifications is declared \<^verbatim>\<open>NOT NULL\<close>: the INSERT of a
  row whose message is \<^verbatim>\<open>null\<close> or \<^verbatim>\<open>undefined\<close> (both are bound as NULL) fails.
\<close>

definition insert_notification :: "jsval \<Rightarrow> db_state \<Rightarrow> db_state \<times> nat option" where
  "insert_notification message d =
     (if message = JNull \<or> message = JUndefined \<or> next_fault (faults d)
      then (d\<lparr>faults := tl (faults d)\<rparr>, None)
      else (d\<lparr>last_notification_id := Suc (last_notification_id d), faults := tl (faults d)\<rparr>,
            Some (Suc (last_notification_id d))))"

text \<open>\<^verbatim>\<open>db.run\<close> of the UPDATE of the pin flag: \<open>True\<close> when it succeeds.\<close>

definition update_pinned :: "db_state \<Rightarrow> db_state \<times> bool" where
  "update_pinned d = (d\<lparr>faults := tl (faults d)\<rparr>, \<not> next_fault (faults d))"

section \<open>Messages and the window of recent tokens\<close>

text \<open>
  The test of lines 167 to 173: the token is truthy, the map has it, and it was
  stored less than 5000 ms before \<open>now\<close> (\<^verbatim>\<open>Date.now()\<close>).
\<close>

definition duplicate :: "int \<Rightarrow> jsval \<Rightarrow> (jsval \<rightharpoonup> int) \<Rightarrow> bool" where
  "duplicate now tempId recent =
     (truthy tempId \<and> (case recent tempId of None \<Rightarrow> False | Some lastSeen \<Rightarrow> now - lastSeen < 5000))"

definition send_message :: "socket_id \<Rightarrow> int \<Rightarrow> message_data option \<Rightarrow> server \<Rightarrow> server \<times> effect list" where
  "send_message sid now payload st =
     (case payload of
        None \<Rightarrow> (st, [Uncaught TypeError])
      | Some messageData \<Rightarrow>
          (let room = js_String (md_room messageData); tempId = md_tempId messageData in
           if duplicate now tempId (recentMessages st) then (st, [])
           else
             (let st1 = (if truthy tempId
                         then st\<lparr>recentMessages := (recentMessages st)(tempId \<mapsto> now),
                                 timeouts := timeouts st @ [(now + 10000, tempId)]\<rparr>
                         else st);
                  row = \<lparr>r_room = room, r_sender_id = md_sender_id messageData,
                         r_sender_name = md_sender_name messageData,
                         r_content = md_content messageData,
                         r_type = js_or (md_type messageData) (JStr (lit ''text'')),
                         r_file_path = md_file_path messageData\<rparr>
              in case insert_message (db st1) of
                   (d, None) \<Rightarrow> (st1\<lparr>db := d\<rparr>, [])
                 | (d, Some messageId) \<Rightarrow>
                     (let messageToSend =
                            \<lparr>m_id = messageId, m_sender_id = md_sender_id messageData,
                             m_sender_name = md_sender_name messageData,
                             m_content = md_content messageData,
                             m_type = js_or (md_type messageData) (JStr (lit ''text'')),
                             m_file_path = md_file_path messageData,
                             m_timestamp = now,
                             m_tempId = tempId,
                             m_role = js_or (md_role messageData) (JStr (lit ''student'')),
                             m_avatar = js_or (md_avatar messageData) JNull,
                             m_studyType = js_or (md_studyType messageData) (JStr (lit ''evening''))\<rparr>
                      in (st1\<lparr>db := d\<rparr>,
                          [InsertMessage messageId row,
                           Emit (To room) (ReceiveMessage (UserMessage messageToSend)),
                           Emit ToAll (DashboardUpdate room (UserMessage messageToSend))])))))"

text \<open>
  A pending callback \<^verbatim>\<open>() => recentMessages.delete(tempId)\<close> runs: \<open>t\<close> is its due time
  and its token. The event loop runs it no earlier than its due time.
\<close>

definition timeout_fires :: "int \<times> jsval \<Rightarrow> int \<Rightarrow> server \<Rightarrow> server \<times> effect list" where
  "timeout_fires t now st =
     (if t \<in> set (timeouts st) \<and> fst t \<le> now
      then (st\<lparr>recentMessages := (recentMessages st)(snd t := None),
               timeouts := remove1 t (timeouts st)\<rparr>, [])
      else (st, []))"

section \<open>Notification fan-out\<close>

text \<open>
  Each loop goes over \<open>connectedUsers\<close> in the order of the map and returns the database,
  the effects of the statements it has queued, and whether it was left by a
  TypeError (the cohort of a connection is not a string).
\<close>

definition morning :: jsval where
  "morning = JStr (lit ''morning'')"

subsection \<open>Manual notification (\<^verbatim>\<open>send_notification\<close>)\<close>

record notification_request =
  nr_professor_id :: jsval
  nr_professor_name :: jsval
  nr_message :: jsval

text \<open>The literal before \<^verbatim>\<open>${professor_name}\<close> in the title.\<close>

definition manual_title_prefix :: jsstring where
  "manual_title_prefix = [0xD83D, 0xDCE2, 0x20, 0x625, 0x634, 0x639, 0x627, 0x631, 0x20, 0x645, 0x646, 0x20]"

fun send_notification_loop ::
  "(jsstring \<Rightarrow> jsstring) \<Rightarrow> jsstring \<Rightarrow> jsval \<Rightarrow> jsval \<Rightarrow> jsstring \<Rightarrow> jsval \<Rightarrow> int \<Rightarrow>
   (socket_id \<times> user_data) list \<Rightarrow> db_state \<Rightarrow> db_state \<times> effect list \<times> bool" where
  "send_notification_loop lower senderStudyType professor_id professor_name title body now [] d = (d, [], False)"
| "send_notification_loop lower senderStudyType professor_id professor_name title body now
       ((targetSocketId, userData) # rest) d =
     (case toLowerCase lower (js_or (u_studyType userData) morning) of
        None \<Rightarrow> (d, [], True)
      | Some userStudy \<Rightarrow>
          if userStudy = senderStudyType \<and> u_id userData \<noteq> professor_id then
            (case insert_notification body d of
               (d1, None) \<Rightarrow>
                 send_notification_loop lower senderStudyType professor_id professor_name title body now rest d1
             | (d1, Some notificationId) \<Rightarrow>
                 (case send_notification_loop lower senderStudyType professor_id professor_name title body now rest d1 of
                    (d2, effs, thrown) \<Rightarrow>
                      (d2,
                       InsertNotification notificationId
                         \<lparr>n_user_id = u_id userData, n_title = title, n_message = body,
                          n_sender_id = professor_id, n_sender_name = professor_name\<rparr>
                       # Emit (To targetSocketId)
                           (NewNotification \<lparr>nt_id = notificationId, nt_title = title, nt_body = body,
                              nt_created_at = now, nt_data = ManualAlert professor_id\<rparr>)
                       # effs,
                       thrown)))
          else send_notification_loop lower senderStudyType professor_id professor_name title body now rest d)"

definition send_notification ::
  "(jsstring \<Rightarrow> jsstring) \<Rightarrow> socket_id \<Rightarrow> int \<Rightarrow> notification_request option \<Rightarrow> server \<Rightarrow> server \<times> effect list" where
  "send_notification lower sid now payload st =
     (case payload of
        None \<Rightarrow> (st, [Uncaught TypeError])
      | Some data \<Rightarrow>
          (let senderData = map_of (connectedUsers st) sid;
               declared = (case senderData of None \<Rightarrow> JUndefined | Some u \<Rightarrow> u_studyType u)
           in case toLowerCase lower (js_or declared morning) of
                None \<Rightarrow> (st, [Uncaught TypeError])
              | Some senderStudyType \<Rightarrow>
                  (case send_notification_loop lower senderStudyType (nr_professor_id data) (nr_professor_name data)
                          (manual_title_prefix @ js_String (nr_professor_name data)) (nr_message data) now
                          (connectedUsers st) (db st) of
                     (d, effs, thrown) \<Rightarrow>
                       (st\<lparr>db := d\<rparr>, (if thrown then [Uncaught TypeError] else []) @ effs))))"

subsection \<open>Lecture update (lines 1326 to 1413 of \<^verbatim>\<open>PUT /api/lectures/:id\<close>)\<close>

text \<open>
  The part of the route after the changes have been found: \<open>lu_body\<close> is
  \<^verbatim>\<open>notificationBody\<close>, \<open>lu_studyType\<close> and \<open>lu_created_by\<close> are read from the
  lecture's row.
\<close>

record lecture_update =
  lu_id :: jsval
  lu_title :: jsval
  lu_body :: jsstring
  lu_studyType :: jsval
  lu_created_by :: jsval

definition lecture_title_prefix :: jsstring where
  "lecture_title_prefix = [0xD83D, 0xDCE2, 0x20, 0x62A, 0x62D, 0x62F, 0x64A, 0x62B, 0x3A, 0x20]"

text \<open>The first loop, which collects \<^verbatim>\<open>targetSockets\<close>; \<open>None\<close> when it throws.\<close>

fun lecture_targets :: "(jsstring \<Rightarrow> jsstring) \<Rightarrow> jsval \<Rightarrow> jsval \<Rightarrow> (socket_id \<times> user_data) list \<Rightarrow> socket_id list option" where
  "lecture_targets lower targetStudyType editingUserId [] = Some []"
| "lecture_targets lower targetStudyType editingUserId ((socketId, userData) # rest) =
     (case toLowerCase lower (js_or (u_studyType userData) morning) of
        None \<Rightarrow> None
      | Some userStudyType \<Rightarrow>
          (case toLowerCase lower (js_or targetStudyType morning) of
             None \<Rightarrow> None
           | Some target \<Rightarrow>
               (case lecture_targets lower targetStudyType editingUserId rest of
                  None \<Rightarrow> None
                | Some targetSockets \<Rightarrow>
                    if userStudyType = target \<and> u_id userData \<noteq> editingUserId
                    then Some (socketId # targetSockets) else Some targetSockets)))"

fun lecture_loop ::
  "(jsstring \<Rightarrow> jsstring) \<Rightarrow> jsval \<Rightarrow> jsval \<Rightarrow> jsval \<Rightarrow> jsstring \<Rightarrow> jsstring \<Rightarrow> int \<Rightarrow>
   (socket_id \<times> user_data) list \<Rightarrow> db_state \<Rightarrow> db_state \<times> effect list \<times> bool" where
  "lecture_loop lower targetStudyType editingUserId lectureId title body now [] d = (d, [], False)"
| "lecture_loop lower targetStudyType editingUserId lectureId title body now ((socketId, userData) # rest) d =
     (case toLowerCase lower (js_or (u_studyType userData) morning) of
        None \<Rightarrow> (d, [], True)
      | Some userStudyType \<Rightarrow>
          (case toLowerCase lower (js_or targetStudyType morning) of
             None \<Rightarrow> (d, [], True)
           | Some target \<Rightarrow>
               if userStudyType = target \<and> u_id userData \<noteq> editingUserId then
                 (case insert_notification (JStr body) d of
                    (d1, None) \<Rightarrow> lecture_loop lower targetStudyType editingUserId lectureId title body now rest d1
                  | (d1, Some notificationId) \<Rightarrow>
                      (case lecture_loop lower targetStudyType editingUserId lectureId title body now rest d1 of
                         (d2, effs, thrown) \<Rightarrow>
                           (d2,
                            InsertNotification notificationId
                              \<lparr>n_user_id = u_id userData, n_title = title, n_message = JStr body,
                               n_sender_id = JNull, n_sender_name = JNull\<rparr>
                            # Emit (To socketId)
                                (NewNotification \<lparr>nt_id = notificationId, nt_title = title,
                                   nt_body = JStr body, nt_created_at = now,
                                   nt_data = LectureUpdate lectureId\<rparr>)
                            # effs,
                            thrown)))
               else lecture_loop lower targetStudyType editingUserId lectureId title body now rest d))"

definition lecture_update_notify :: "(jsstring \<Rightarrow> jsstring) \<Rightarrow> lecture_update \<Rightarrow> int \<Rightarrow> server \<Rightarrow> server \<times> effect list" where
  "lecture_update_notify lower lu now st =
     (let targetStudyType = js_or (lu_studyType lu) morning;
          notificationTitle = lecture_title_prefix @ js_String (lu_title lu)
      in case lecture_targets lower targetStudyType (lu_created_by lu) (connectedUsers st) of
           None \<Rightarrow> (st, [Uncaught TypeError])
         | Some targetSockets \<Rightarrow>
             (case lecture_loop lower targetStudyType (lu_created_by lu) (lu_id lu) notificationTitle (lu_body lu) now
                     (connectedUsers st) (db st) of
                (d, effs, thrown) \<Rightarrow>
                  (st\<lparr>db := d\<rparr>,
                   (if thrown then [Uncaught TypeError] else [Respond 200]) @ effs)))"

subsection \<open>Pinning a message (\<^verbatim>\<open>PUT /api/messages/:id/pin\<close>)\<close>

record pin_request =
  pr_id :: jsstring
  pr_is_pinned :: jsval
  pr_role :: jsval

text \<open>
  The row that the SELECT of the route returns: the message joined with its room and
  its sender. The columns of the joins are \<open>JNull\<close> when no room or sender matches.
\<close>

record pinned_message =
  pm_id :: nat
  pm_room :: jsstring
  pm_sender_name :: jsval
  pm_content :: jsval
  pm_roomStudyType :: jsval
  pm_roomName :: jsval
  pm_senderStudyType :: jsval

datatype 'a db_result = DbErr | DbRow 'a

definition default_room_name :: jsstring where
  "default_room_name = [0x62F, 0x631, 0x62F, 0x634, 0x629]"

definition pin_title_prefix :: jsstring where
  "pin_title_prefix = [0xD83D, 0xDCCC, 0x20, 0x631, 0x633, 0x627, 0x644, 0x629, 0x20,
     0x645, 0x62B, 0x628, 0x62A, 0x629, 0x20, 0x641, 0x64A, 0x20]"

text \<open>The literal before \<^verbatim>\<open>${message.sender_name}\<close> in the body.\<close>

definition pin_body_prefix :: jsstring where
  "pin_body_prefix = [0x645, 0x646, 0x20]"

definition systemSenderName :: jsstring where
  "systemSenderName = [0x627, 0x644, 0x646, 0x638, 0x627, 0x645]"

text \<open>
  \<^verbatim>\<open>content.length > 50 ? content.substring(0, 50) + '...' : content\<close>. Reading
  \<^verbatim>\<open>length\<close> of \<^verbatim>\<open>null\<close> or \<^verbatim>\<open>undefined\<close> throws (\<open>None\<close>); a number or a boolean has no
  \<^verbatim>\<open>length\<close>, the comparison is false and the content is kept.
\<close>

fun messagePreview :: "jsval \<Rightarrow> jsval option" where
  "messagePreview (JStr s) = Some (if length s > 50 then JStr (take 50 s @ lit ''...'') else JStr s)"
| "messagePreview JNull = None"
| "messagePreview JUndefined = None"
| "messagePreview v = Some v"

definition notificationBody :: "jsval \<Rightarrow> jsval \<Rightarrow> jsstring" where
  "notificationBody sender_name preview = pin_body_prefix @ js_String sender_name @ lit '': '' @ js_String preview"

fun pin_loop ::
  "(jsstring \<Rightarrow> jsstring) \<Rightarrow> jsval \<Rightarrow> jsstring \<Rightarrow> jsstring \<Rightarrow> nat \<Rightarrow> jsstring \<Rightarrow> int \<Rightarrow> jsval set \<Rightarrow>
   (socket_id \<times> user_data) list \<Rightarrow> db_state \<Rightarrow> db_state \<times> effect list \<times> bool" where
  "pin_loop lower targetStudyType title body messageId room now notifiedUserIds [] d = (d, [], False)"
| "pin_loop lower targetStudyType title body messageId room now notifiedUserIds ((socketId, userData) # rest) d =
     (case toLowerCase lower (js_or (u_studyType userData) morning) of
        None \<Rightarrow> (d, [], True)
      | Some userStudyType \<Rightarrow>
          (case toLowerCase lower (js_or targetStudyType morning) of
             None \<Rightarrow> (d, [], True)
           | Some targetStudy \<Rightarrow>
               if userStudyType = targetStudy \<and> u_id userData \<notin> notifiedUserIds then
                 (case insert_notification (JStr body) d of
                    (d1, None) \<Rightarrow>
                      pin_loop lower targetStudyType title body messageId room now
                        (insert (u_id userData) notifiedUserIds) rest d1
                  | (d1, Some notificationId) \<Rightarrow>
                      (case pin_loop lower targetStudyType title body messageId room now
                              (insert (u_id userData) notifiedUserIds) rest d1 of
                         (d2, effs, thrown) \<Rightarrow>
                           (d2,
                            InsertNotification notificationId
                              \<lparr>n_user_id = u_id userData, n_title = title, n_message = JStr body,
                               n_sender_id = JNull, n_sender_name = JNull\<rparr>
                            # Emit (To socketId)
                                (NewNotification \<lparr>nt_id = notificationId, nt_title = title,
                                   nt_body = JStr body, nt_created_at = now,
                                   nt_data = PinnedMessage messageId room\<rparr>)
                            # effs,
                            thrown)))
               else pin_loop lower targetStudyType title body messageId room now notifiedUserIds rest d))"

text \<open>
  The system message of a pin: the statement and, when it succeeds, the two
  broadcasts of its callback.
\<close>

definition pin_system_message :: "pinned_message \<Rightarrow> int \<Rightarrow> db_state \<Rightarrow> db_state \<times> effect list" where
  "pin_system_message message now d =
     (let pinnedMsgIdStr = dec_nat (pm_id message) in
      case insert_message d of
        (d1, None) \<Rightarrow> (d1, [])
      | (d1, Some lastID) \<Rightarrow>
          (let sysMessage = SystemMessage
                 \<lparr>s_id = lastID, s_room = pm_room message, s_sender_id = - 1,
                  s_sender_name = systemSenderName, s_content = pm_content message,
                  s_file_path = pinnedMsgIdStr, s_type = lit ''system'', s_timestamp = now\<rparr>
           in (d1,
               [InsertMessage lastID
                  \<lparr>r_room = pm_room message, r_sender_id = JNum (- 1),
                   r_sender_name = JStr systemSenderName, r_content = pm_content message,
                   r_type = JStr (lit ''system''), r_file_path = JStr pinnedMsgIdStr\<rparr>,
                Emit (To (pm_room message)) (ReceiveMessage sysMessage),
                Emit ToAll (DashboardUpdate (pm_room message) sysMessage)])))"

text \<open>
  The route. What is done before the route returns (the pin event, the response) comes
  first in the effects, then what the callbacks of the queued statements do.
\<close>

definition pin_message ::
  "(jsstring \<Rightarrow> jsstring) \<Rightarrow> pin_request \<Rightarrow> pinned_message option db_result \<Rightarrow> int \<Rightarrow> server \<Rightarrow> server \<times> effect list" where
  "pin_message lower req selected now st =
     (if pr_role req \<noteq> JStr (lit ''representative'') then (st, [Respond 403])
      else case selected of
        DbErr \<Rightarrow> (st, [Respond 500])
      | DbRow None \<Rightarrow> (st, [Respond 404])
      | DbRow (Some message) \<Rightarrow>
          (case update_pinned (db st) of
             (d0, False) \<Rightarrow> (st\<lparr>db := d0\<rparr>, [Respond 500])
           | (d0, True) \<Rightarrow>
               (let pinned = [Emit (To (pm_room message))
                                (MessagePinUpdated (JStr (pr_id req)) (pr_is_pinned req) (pm_room message)),
                              Respond 200]
                in if truthy (pr_is_pinned req) then
                     (let targetStudyType =
                            js_or (js_or (pm_roomStudyType message) (pm_senderStudyType message)) morning;
                          roomName = js_or (js_or (pm_roomName message) (JStr (pm_room message)))
                                       (JStr default_room_name);
                          notificationTitle = pin_title_prefix @ js_String roomName
                      in case messagePreview (pm_content message) of
                           None \<Rightarrow> (st\<lparr>db := d0\<rparr>, [Uncaught TypeError])
                         | Some preview \<Rightarrow>
                             (case pin_loop lower targetStudyType notificationTitle
                                     (notificationBody (pm_sender_name message) preview)
                                     (pm_id message) (pm_room message) now {} (connectedUsers st) d0 of
                                (d1, effs, True) \<Rightarrow> (st\<lparr>db := d1\<rparr>, Uncaught TypeError # effs)
                              | (d1, effs, False) \<Rightarrow>
                                  (case pin_system_message message now d1 of
                                     (d2, sys) \<Rightarrow> (st\<lparr>db := d2\<rparr>, pinned @ effs @ sys))))
                   else (st\<lparr>db := d0\<rparr>, pinned))))"

section \<open>Requests and runs\<close>

datatype request =
    RegisterUser socket_id "user_data option"
  | JoinRoom socket_id join_data
  | LeaveRoom socket_id leave_data
  | Disconnect socket_id
  | SendMessage socket_id int "message_data option"
  | SendNotification socket_id int "notification_request option"
  | TimeoutFires "int \<times> jsval" int
  | LectureUpdated lecture_update int
  | PinMessage pin_request "pinned_message option db_result" int

fun handle :: "(jsstring \<Rightarrow> jsstring) \<Rightarrow> request \<Rightarrow> server \<Rightarrow> server \<times> effect list" where
  "handle lower (RegisterUser sid payload) st = register_user sid payload st"
| "handle lower (JoinRoom sid payload) st = join_room sid payload st"
| "handle lower (LeaveRoom sid payload) st = leave_room sid payload st"
| "handle lower (Disconnect sid) st = disconnect sid st"
| "handle lower (SendMessage sid now payload) st = send_message sid now payload st"
| "handle lower (SendNotification sid now payload) st = send_notification lower sid now payload st"
| "handle lower (TimeoutFires t now) st = timeout_fires t now st"
| "handle lower (LectureUpdated lu now) st = lecture_update_notify lower lu now st"
| "handle lower (PinMessage req selected now) st = pin_message lower req selected now st"

text \<open>The state after each request of a run, with the effects of that request.\<close>

fun run :: "(jsstring \<Rightarrow> jsstring) \<Rightarrow> request list \<Rightarrow> server \<Rightarrow> (server \<times> effect list) list" where
  "run lower [] st = []"
| "run lower (r # rs) st = handle lower r st # run lower rs (fst (handle lower r st))"

text \<open>The state that a run reaches.\<close>

fun state_after :: "(jsstring \<Rightarrow> jsstring) \<Rightarrow> request list \<Rightarrow> server \<Rightarrow> server" where
  "state_after lower [] st = st"
| "state_after lower (r # rs) st = state_after lower rs (fst (handle lower r st))"

section \<open>Observations\<close>

text \<open>The participants of a room; none when the room has no entry.\<close>

definition participants_of :: "server \<Rightarrow> jsstring \<Rightarrow> participants" where
  "participants_of st room = (case map_of (roomParticipants st) room of None \<Rightarrow> [] | Some ps \<Rightarrow> ps)"

text \<open>The connections that are in a participant map with the role \<^verbatim>\<open>'student'\<close>.\<close>

definition students_in :: "participants \<Rightarrow> socket_id set" where
  "students_in ps = fst ` {e \<in> set ps. role (snd e) = JStr (lit ''student'')}"

definition active_count :: "server \<Rightarrow> jsstring \<Rightarrow> nat" where
  "active_count st room = card (students_in (participants_of st room))"

text \<open>The keys of a \<^verbatim>\<open>Map\<close> are distinct: of the rooms, and of the participants of each room.\<close>

definition wf_rooms :: "(jsstring \<times> participants) list \<Rightarrow> bool" where
  "wf_rooms rp = (distinct (map fst rp) \<and> list_all (\<lambda>e. distinct (map fst (snd e))) rp)"

text \<open>
  What a fan-out has done: the users for whom a notification row was written, and the
  transport rooms to which \<^verbatim>\<open>new_notification\<close> was emitted, both in order.
\<close>

fun row_user :: "effect \<Rightarrow> jsval list" where
  "row_user (InsertNotification i row) = [n_user_id row]"
| "row_user e = []"

fun notified_socket :: "effect \<Rightarrow> target list" where
  "notified_socket (Emit t (NewNotification n)) = [t]"
| "notified_socket e = []"

definition row_users :: "effect list \<Rightarrow> jsval list" where
  "row_users effs = concat (map row_user effs)"

definition notified_sockets :: "effect list \<Rightarrow> target list" where
  "notified_sockets effs = concat (map notified_socket effs)"

text \<open>
  What the loop of the disconnect handler publishes for a room: the count of the room
  without the socket, when the room had it.
\<close>

definition left_room :: "socket_id \<Rightarrow> (jsstring \<times> participants) list \<Rightarrow> jsstring \<Rightarrow> effect list" where
  "left_room sid rp room =
     (case map_of rp room of
        None \<Rightarrow> []
      | Some ps \<Rightarrow>
          if sid \<in> fst ` set ps
          then [Emit (To room) (ActiveStudentCount room (card (students_in (AList.delete sid ps))))]
          else [])"

text \<open>The two tests of \<^verbatim>\<open>join_room\<close>: on the room identifier and on the identity.\<close>

definition valid_room :: "jsstring \<Rightarrow> bool" where
  "valid_room r = (r \<noteq> [] \<and> r \<noteq> lit ''undefined'' \<and> r \<noteq> lit ''null'')"

definition full_identity :: "participant \<Rightarrow> bool" where
  "full_identity who = (truthy (userId who) \<and> truthy (userName who) \<and> truthy (role who))"

text \<open>The cohorts carried by the \<^verbatim>\<open>receive_message\<close> events of user messages.\<close>

fun message_cohort :: "effect \<Rightarrow> jsval list" where
  "message_cohort (Emit t (ReceiveMessage (UserMessage m))) = [m_studyType m]"
| "message_cohort e = []"

definition message_cohorts :: "effect list \<Rightarrow> jsval list" where
  "message_cohorts effs = concat (map message_cohort effs)"


section \<open>Example inputs\<close>

text \<open>
  The examples take for the case conversion the folding of the letters A to Z, which is
  what the language does to a string of Basic Latin.
\<close>

definition lower_unit :: "16 word \<Rightarrow> 16 word" where
  "lower_unit c = (if 0x41 \<le> c \<and> c \<le> 0x5A then c + 0x20 else c)"

definition ascii_lower :: "jsstring \<Rightarrow> jsstring" where
  "ascii_lower s = map lower_unit s"

definition msg1 :: message_data where
  "msg1 = \<lparr>md_room = JStr (lit ''R1''), md_sender_id = JNum 7, md_sender_name = JStr (lit ''Ann''),
     md_content = JStr (lit ''hello''), md_type = JUndefined, md_file_path = JUndefined,
     md_tempId = JStr (lit ''t1''), md_role = JUndefined, md_avatar = JUndefined,
     md_studyType = JUndefined\<rparr>"

definition ann_join :: join_data where
  "ann_join = JObj \<lparr>jp_roomId = JStr (lit ''R1''), jp_room = JUndefined, jp_userId = JNum 1,
     jp_userName = JStr (lit ''Ann''), jp_role = JStr (lit ''student'')\<rparr>"

definition bob_join :: join_data where
  "bob_join = JObj \<lparr>jp_roomId = JUndefined, jp_room = JStr (lit ''R1''), jp_userId = JNum 2,
     jp_userName = JStr (lit ''Bob''), jp_role = JStr (lit ''representative'')\<rparr>"

definition cat_join :: join_data where
  "cat_join = JObj \<lparr>jp_roomId = JStr (lit ''R1''), jp_room = JUndefined, jp_userId = JNum 3,
     jp_userName = JStr (lit ''Cat''), jp_role = JStr (lit ''student'')\<rparr>"

definition bob_user :: user_data where
  "bob_user = \<lparr>u_id = JNum 2, u_name = JStr (lit ''Bob''), u_role = JStr (lit ''representative''),
     u_studyType = JUndefined\<rparr>"

definition presence_run :: "request list" where
  "presence_run = [JoinRoom (lit ''A'') ann_join, JoinRoom (lit ''B'') bob_join,
     JoinRoom (lit ''C'') (JPrim (JStr (lit ''R1'')))]"

definition leaving_run :: "request list" where
  "leaving_run = [JoinRoom (lit ''A'') ann_join, RegisterUser (lit ''B'') (Some bob_user),
     JoinRoom (lit ''B'') bob_join]"

definition two_devices :: server where
  "two_devices = state_after ascii_lower
     [RegisterUser (lit ''A'') (Some \<lparr>u_id = JNum 7, u_name = JStr (lit ''Ann''),
        u_role = JStr (lit ''student''), u_studyType = JUndefined\<rparr>),
      RegisterUser (lit ''B'') (Some \<lparr>u_id = JNum 7, u_name = JStr (lit ''Ann''),
        u_role = JStr (lit ''student''), u_studyType = JStr (lit ''Morning'')\<rparr>)]
     (init_server [])"

definition pin_req :: pin_request where
  "pin_req = \<lparr>pr_id = lit ''12'', pr_is_pinned = JBool True, pr_role = JStr (lit ''representative'')\<rparr>"

definition exam_message :: pinned_message where
  "exam_message = \<lparr>pm_id = 12, pm_room = lit ''R1'', pm_sender_name = JStr (lit ''X''),
     pm_content = JStr (lit ''Exam moved to Monday''), pm_roomStudyType = JStr (lit ''morning''),
     pm_roomName = JNull, pm_senderStudyType = JNull\<rparr>"

definition long_message :: pinned_message where
  "long_message = exam_message\<lparr>pm_content := JStr (replicate 60 (0x61))\<rparr>"

definition alert :: notification_request where
  "alert = \<lparr>nr_professor_id = JNum 9, nr_professor_name = JStr (lit ''Prof''), nr_message = JStr (lit ''hi'')\<rparr>"

definition algebra_update :: lecture_update where
  "algebra_update = \<lparr>lu_id = JStr (lit ''3''), lu_title = JStr (lit ''Algebra''), lu_body = lit ''moved'',
     lu_studyType = JStr (lit ''morning''), lu_created_by = JNum 9\<rparr>"

text \<open>Two students who name the room by the number 5, and the first one leaving it.\<close>

definition ann_join_5 :: join_data where
  "ann_join_5 = JObj \<lparr>jp_roomId = JNum 5, jp_room = JUndefined, jp_userId = JNum 1,
     jp_userName = JStr (lit ''Ann''), jp_role = JStr (lit ''student'')\<rparr>"

definition cat_join_5 :: join_data where
  "cat_join_5 = JObj \<lparr>jp_roomId = JNum 5, jp_room = JUndefined, jp_userId = JNum 3,
     jp_userName = JStr (lit ''Cat''), jp_role = JStr (lit ''student'')\<rparr>"

definition ann_in_5 :: server where
  "ann_in_5 = fst (join_room (lit ''A'') ann_join_5 (init_server []))"


section \<open>The window of recent tokens\<close>

lemma send_message_rejects:
  "duplicate now (md_tempId m) (recentMessages st) \<Longrightarrow> send_message sid now (Some m) st = (st, [])"
  by (simp add: send_message_def)

lemma send_message_records:
  "\<not> duplicate now (md_tempId m) (recentMessages st) \<Longrightarrow> truthy (md_tempId m) \<Longrightarrow>
   recentMessages (fst (send_message sid now (Some m) st)) = (recentMessages st)(md_tempId m \<mapsto> now)
   \<and> timeouts (fst (send_message sid now (Some m) st)) = timeouts st @ [(now + 10000, md_tempId m)]"
  by (simp add: send_message_def Let_def insert_message_def split: prod.splits option.splits)

text \<open>
  Claim C1. A send with a token is accepted at time \<open>t1\<close> (the test of the window does
  not reject it): the acceptance stores \<open>t1\<close> for the token. In any later state \<open>st2\<close>
  that still holds this entry (it has not been evicted), a send with the same token at
  a time \<open>t2\<close> less than 5000 ms after \<open>t1\<close> is rejected: the state is unchanged (no
  entry, no timeout, no generated id) and there is no effect at all, so no row and no
  \<^verbatim>\<open>receive_message\<close> or \<^verbatim>\<open>dashboard_update\<close>.
\<close>

theorem duplicate_send_rejected:
  assumes tok: "truthy (md_tempId m1)" "md_tempId m2 = md_tempId m1"
    and acc: "\<not> duplicate t1 (md_tempId m1) (recentMessages st)"
    and kept: "recentMessages st2 (md_tempId m1) =
               recentMessages (fst (send_message sid1 t1 (Some m1) st)) (md_tempId m1)"
    and near: "t2 - t1 < 5000"
  shows "recentMessages (fst (send_message sid1 t1 (Some m1) st)) (md_tempId m1) = Some t1
       \<and> send_message sid2 t2 (Some m2) st2 = (st2, [])"
proof -
  have rec: "recentMessages (fst (send_message sid1 t1 (Some m1) st)) (md_tempId m1) = Some t1"
    using send_message_records [OF acc tok(1)] by simp
  with kept have "recentMessages st2 (md_tempId m2) = Some t1"
    by (simp add: tok(2))
  with tok near have "duplicate t2 (md_tempId m2) (recentMessages st2)"
    by (simp add: duplicate_def)
  then have "send_message sid2 t2 (Some m2) st2 = (st2, [])"
    by (rule send_message_rejects)
  with rec show ?thesis by simp
qed

theorem duplicate_send_rejected_witness:
  "truthy (md_tempId msg1) \<and> \<not> duplicate 1000 (md_tempId msg1) (recentMessages (init_server []))
   \<and> (3000::int) - 1000 < 5000
   \<and> recentMessages (fst (send_message (lit ''A'') 1000 (Some msg1) (init_server []))) (md_tempId msg1) = Some 1000
   \<and> send_message (lit ''A'') 3000 (Some msg1) (fst (send_message (lit ''A'') 1000 (Some msg1) (init_server [])))
       = (fst (send_message (lit ''A'') 1000 (Some msg1) (init_server [])), [])"
  using duplicate_send_rejected [where ?m1.0 = msg1 and ?m2.0 = msg1 and ?t1.0 = 1000 and ?t2.0 = 3000
      and st = "init_server []" and ?sid1.0 = "lit ''A''" and ?sid2.0 = "lit ''A''"
      and ?st2.0 = "fst (send_message (lit ''A'') 1000 (Some msg1) (init_server []))"]
  by (simp add: msg1_def init_server_def duplicate_def lit_def)

text \<open>
  Claim C5. An accepted send runs the INSERT first. When the statement fails, the send
  has no effect: nothing is emitted. When it succeeds, the effects are, in this order,
  the row written with its generated id, \<^verbatim>\<open>receive_message\<close> to the room and
  \<^verbatim>\<open>dashboard_update\<close> to every socket; the message of both events carries that
  generated id and the token of the client.
\<close>

theorem persist_before_broadcast:
  assumes acc: "\<not> duplicate now (md_tempId m) (recentMessages st)"
  shows "snd (send_message sid now (Some m) st) =
     (if next_fault (faults (db st)) then []
      else [InsertMessage (Suc (last_message_id (db st)))
              \<lparr>r_room = js_String (md_room m), r_sender_id = md_sender_id m,
               r_sender_name = md_sender_name m, r_content = md_content m,
               r_type = js_or (md_type m) (JStr (lit ''text'')), r_file_path = md_file_path m\<rparr>,
            Emit (To (js_String (md_room m)))
              (ReceiveMessage (UserMessage
                \<lparr>m_id = Suc (last_message_id (db st)), m_sender_id = md_sender_id m,
                 m_sender_name = md_sender_name m, m_content = md_content m,
                 m_type = js_or (md_type m) (JStr (lit ''text'')), m_file_path = md_file_path m,
                 m_timestamp = now, m_tempId = md_tempId m,
                 m_role = js_or (md_role m) (JStr (lit ''student'')),
                 m_avatar = js_or (md_avatar m) JNull,
                 m_studyType = js_or (md_studyType m) (JStr (lit ''evening''))\<rparr>)),
            Emit ToAll
              (DashboardUpdate (js_String (md_room m)) (UserMessage
                \<lparr>m_id = Suc (last_message_id (db st)), m_sender_id = md_sender_id m,
                 m_sender_name = md_sender_name m, m_content = md_content m,
                 m_type = js_or (md_type m) (JStr (lit ''text'')), m_file_path = md_file_path m,
                 m_timestamp = now, m_tempId = md_tempId m,
                 m_role = js_or (md_role m) (JStr (lit ''student'')),
                 m_avatar = js_or (md_avatar m) JNull,
                 m_studyType = js_or (md_studyType m) (JStr (lit ''evening''))\<rparr>))])"
  using acc by (simp add: send_message_def Let_def insert_message_def)

theorem persist_before_broadcast_witness:
  "\<not> duplicate 1000 (md_tempId msg1) (recentMessages (init_server [True]))
   \<and> snd (send_message (lit ''A'') 1000 (Some msg1) (init_server [True])) = []
   \<and> \<not> duplicate 1000 (md_tempId msg1) (recentMessages (init_server []))
   \<and> length (snd (send_message (lit ''A'') 1000 (Some msg1) (init_server []))) = 3"
  using persist_before_broadcast [where m = msg1 and now = 1000 and st = "init_server [True]" and sid = "lit ''A''"]
    persist_before_broadcast [where m = msg1 and now = 1000 and st = "init_server []" and sid = "lit ''A''"]
  by (simp add: init_server_def init_db_def duplicate_def)

text \<open>
  Claim C10. A token is accepted at \<open>t0\<close> and accepted again \<open>d\<close> ms later, with
  \<open>5000 \<le> d < 10000\<close>. The timeout of the first acceptance is still pending, is
  due at \<open>t0 + 10000\<close>, and when it runs it deletes the entry that the second
  acceptance has refreshed. A third send at \<open>t3\<close>, less than 5000 ms after the second
  acceptance, is rejected before that timeout has run and accepted after it.
\<close>

theorem early_timeout_reopens_window:
  assumes tok: "truthy (md_tempId m)"
    and acc: "\<not> duplicate t0 (md_tempId m) (recentMessages st)"
    and d: "5000 \<le> d" "d < 10000"
    and tf: "t0 + 10000 \<le> tf"
    and t3: "t3 - (t0 + d) < 5000"
  shows "let st1 = fst (send_message sid t0 (Some m) st);
             st2 = fst (send_message sid (t0 + d) (Some m) st1);
             st3 = fst (timeout_fires (t0 + 10000, md_tempId m) tf st2)
         in recentMessages st2 (md_tempId m) = Some (t0 + d)
          \<and> (t0 + 10000, md_tempId m) \<in> set (timeouts st2)
          \<and> recentMessages st3 (md_tempId m) = None
          \<and> send_message sid t3 (Some m) st2 = (st2, [])
          \<and> \<not> duplicate t3 (md_tempId m) (recentMessages st3)
          \<and> recentMessages (fst (send_message sid t3 (Some m) st3)) (md_tempId m) = Some t3"
proof -
  define st1 where "st1 = fst (send_message sid t0 (Some m) st)"
  define st2 where "st2 = fst (send_message sid (t0 + d) (Some m) st1)"
  define st3 where "st3 = fst (timeout_fires (t0 + 10000, md_tempId m) tf st2)"
  have r1: "recentMessages st1 = (recentMessages st)(md_tempId m \<mapsto> t0)"
    and q1: "timeouts st1 = timeouts st @ [(t0 + 10000, md_tempId m)]"
    using send_message_records [OF acc tok, of sid] by (simp_all add: st1_def)
  have acc2: "\<not> duplicate (t0 + d) (md_tempId m) (recentMessages st1)"
    using d by (simp add: duplicate_def r1)
  have r2: "recentMessages st2 = (recentMessages st1)(md_tempId m \<mapsto> t0 + d)"
    and q2: "timeouts st2 = timeouts st1 @ [(t0 + d + 10000, md_tempId m)]"
    using send_message_records [OF acc2 tok, of sid] by (simp_all add: st2_def)
  have pending: "(t0 + 10000, md_tempId m) \<in> set (timeouts st2)"
    by (simp add: q2 q1)
  have r3: "recentMessages st3 (md_tempId m) = None"
    using pending tf by (simp add: st3_def timeout_fires_def)
  have dup: "duplicate t3 (md_tempId m) (recentMessages st2)"
    using tok t3 by (simp add: duplicate_def r2)
  have acc3: "\<not> duplicate t3 (md_tempId m) (recentMessages st3)"
    by (simp add: duplicate_def r3)
  have "recentMessages (fst (send_message sid t3 (Some m) st3)) (md_tempId m) = Some t3"
    using send_message_records [OF acc3 tok, of sid] by simp
  with r2 pending r3 acc3 send_message_rejects [OF dup, of sid]
  show ?thesis
    unfolding Let_def st1_def [symmetric] st2_def [symmetric] st3_def [symmetric]
    by simp
qed

theorem early_timeout_reopens_window_witness:
  "truthy (md_tempId msg1) \<and> \<not> duplicate 0 (md_tempId msg1) (recentMessages (init_server []))
   \<and> (5000::int) \<le> 6000 \<and> (6000::int) < 10000 \<and> (0::int) + 10000 \<le> 10000
   \<and> (10500::int) - (0 + 6000) < 5000
   \<and> (let st1 = fst (send_message (lit ''A'') 0 (Some msg1) (init_server []));
           st2 = fst (send_message (lit ''A'') (0 + 6000) (Some msg1) st1);
           st3 = fst (timeout_fires (0 + 10000, md_tempId msg1) 10000 st2)
       in recentMessages st2 (md_tempId msg1) = Some (0 + 6000)
        \<and> recentMessages st3 (md_tempId msg1) = None
        \<and> send_message (lit ''A'') 10500 (Some msg1) st2 = (st2, [])
        \<and> recentMessages (fst (send_message (lit ''A'') 10500 (Some msg1) st3)) (md_tempId msg1) = Some 10500)"
  using early_timeout_reopens_window [where m = msg1 and ?t0.0 = 0 and d = 6000 and tf = 10000
      and ?t3.0 = 10500 and st = "init_server []" and sid = "lit ''A''"]
  by (simp add: msg1_def init_server_def duplicate_def Let_def lit_def)


section \<open>Rooms and their participants\<close>

lemma set_update_subset: "set (AList.update k v al) \<subseteq> insert (k, v) (set al)"
  by (induction al) auto

lemma wf_rooms_update:
  assumes "wf_rooms rp" "distinct (map fst ps)"
  shows "wf_rooms (AList.update r ps rp)"
proof -
  have "distinct (map fst (AList.update r ps rp))"
    using assms(1) by (simp add: wf_rooms_def AList.distinct_update)
  moreover have "distinct (map fst (snd e))" if "e \<in> set (AList.update r ps rp)" for e
  proof -
    from that set_update_subset have "e = (r, ps) \<or> e \<in> set rp" by fastforce
    then show ?thesis using assms by (auto simp: wf_rooms_def list_all_iff)
  qed
  ultimately show ?thesis by (simp add: wf_rooms_def list_all_iff)
qed

lemma wf_rooms_lookup:
  assumes "wf_rooms rp" "map_of rp r = Some ps"
  shows "distinct (map fst ps)"
proof -
  from assms(2) have "(r, ps) \<in> set rp" by (rule map_of_SomeD)
  with assms(1) show ?thesis by (auto simp: wf_rooms_def list_all_iff)
qed

lemma count_students:
  assumes "distinct (map fst ps)"
  shows "length (filter (\<lambda>p. role p = JStr (lit ''student'')) (map snd ps)) = card (students_in ps)"
proof -
  let ?P = "\<lambda>e::socket_id \<times> participant. role (snd e) = JStr (lit ''student'')"
  have "distinct (map fst (filter ?P ps))"
    using assms by (rule distinct_map_filter)
  then have "card (set (map fst (filter ?P ps))) = length (map fst (filter ?P ps))"
    by (rule distinct_card)
  moreover have "set (map fst (filter ?P ps)) = students_in ps"
    by (auto simp: students_in_def)
  moreover have "length (filter (\<lambda>p. role p = JStr (lit ''student'')) (map snd ps)) = length (filter ?P ps)"
    by (simp add: filter_map comp_def)
  ultimately show ?thesis by simp
qed


lemma emit_count:
  assumes "wf_rooms rp"
  shows "emitActiveStudentCount room rp =
     [Emit (To room) (ActiveStudentCount room
        (card (students_in (case map_of rp room of None \<Rightarrow> [] | Some ps \<Rightarrow> ps))))]"
proof (cases "map_of rp room")
  case None
  then show ?thesis by (simp add: emitActiveStudentCount_def students_in_def)
next
  case (Some ps)
  with assms have "distinct (map fst ps)" by (rule wf_rooms_lookup)
  from count_students [OF this] Some show ?thesis
    unfolding emitActiveStudentCount_def by simp
qed

lemma update_present_keys:
  "map_of al k = Some v \<Longrightarrow> map fst (AList.update k w al) = map fst al"
  by (induction al) auto

lemma disconnect_rooms_None:
  "map_of rp room = None \<Longrightarrow> disconnect_rooms sid (room # rest) rp = disconnect_rooms sid rest rp"
  by simp

lemma disconnect_rooms_skip:
  "map_of rp room = Some ps \<Longrightarrow> sid \<notin> fst ` set ps \<Longrightarrow>
   disconnect_rooms sid (room # rest) rp = disconnect_rooms sid rest rp"
  by (simp add: map_of_eq_None_iff)

lemma disconnect_rooms_hit:
  "map_of rp room = Some ps \<Longrightarrow> sid \<in> fst ` set ps \<Longrightarrow>
   disconnect_rooms sid (room # rest) rp =
     (fst (disconnect_rooms sid rest (AList.update room (AList.delete sid ps) rp)),
      emitActiveStudentCount room (AList.update room (AList.delete sid ps) rp)
        @ snd (disconnect_rooms sid rest (AList.update room (AList.delete sid ps) rp)))"
  by (simp add: map_of_eq_None_iff Let_def split: prod.splits)


lemma disconnect_rooms_spec:
  assumes "wf_rooms rp" "distinct ks"
  shows "wf_rooms (fst (disconnect_rooms sid ks rp))
       \<and> map fst (fst (disconnect_rooms sid ks rp)) = map fst rp
       \<and> (\<forall>r. map_of (fst (disconnect_rooms sid ks rp)) r =
               (if r \<in> set ks then map_option (AList.delete sid) (map_of rp r) else map_of rp r))
       \<and> snd (disconnect_rooms sid ks rp) = concat (map (left_room sid rp) ks)"
  using assms
proof (induction ks arbitrary: rp)
  case Nil
  then show ?case by simp
next
  case (Cons room rest)
  from Cons.prems have rest: "distinct rest" "room \<notin> set rest" by simp_all
  note IH = Cons.IH [OF _ rest(1)]
  show ?case
  proof (cases "map_of rp room")
    case None
    have l: "left_room sid rp room = []" using None by (simp add: left_room_def)
    show ?thesis
      unfolding disconnect_rooms_None [OF None]
      using IH [OF Cons.prems(1)] None by (simp add: l)
  next
    case (Some ps)
    show ?thesis
    proof (cases "sid \<in> fst ` set ps")
      case False
      have l: "left_room sid rp room = []" using Some False by (simp add: left_room_def)
      have "AList.delete sid ps = ps" using False by simp
      then show ?thesis
        unfolding disconnect_rooms_skip [OF Some False]
        using IH [OF Cons.prems(1)] Some by (simp add: l)
    next
      case True
      define rp1 where "rp1 = AList.update room (AList.delete sid ps) rp"
      have dps: "distinct (map fst ps)"
        using Cons.prems(1) Some by (rule wf_rooms_lookup)
      have wf1: "wf_rooms rp1"
        unfolding rp1_def using Cons.prems(1)
        by (rule wf_rooms_update) (simp add: AList.distinct_delete dps)
      have keys1: "map fst rp1 = map fst rp"
        unfolding rp1_def using Some by (rule update_present_keys)
      have look1: "map_of rp1 r = (if r = room then Some (AList.delete sid ps) else map_of rp r)" for r
        unfolding rp1_def by (simp add: AList.update_conv')
      have "left_room sid rp1 r = left_room sid rp r" if "r \<in> set rest" for r
        using that rest(2) by (auto simp: left_room_def look1)
      then have same: "map (left_room sid rp1) rest = map (left_room sid rp) rest"
        by simp
      have emit: "emitActiveStudentCount room rp1 = left_room sid rp room"
        using Some True by (simp add: emit_count [OF wf1] look1 left_room_def)
      have step: "disconnect_rooms sid (room # rest) rp =
          (fst (disconnect_rooms sid rest rp1), left_room sid rp room @ snd (disconnect_rooms sid rest rp1))"
        by (simp only: disconnect_rooms_hit [OF Some True] rp1_def [symmetric] emit)
      from IH [OF wf1] have
        a: "wf_rooms (fst (disconnect_rooms sid rest rp1))" and
        b: "map fst (fst (disconnect_rooms sid rest rp1)) = map fst rp1" and
        c: "\<And>r. map_of (fst (disconnect_rooms sid rest rp1)) r =
               (if r \<in> set rest then map_option (AList.delete sid) (map_of rp1 r) else map_of rp1 r)" and
        d: "snd (disconnect_rooms sid rest rp1) = concat (map (left_room sid rp1) rest)"
        by simp_all
      have c': "map_of (fst (disconnect_rooms sid rest rp1)) r =
               (if r \<in> set (room # rest) then map_option (AList.delete sid) (map_of rp r) else map_of rp r)" for r
        using rest(2) Some by (auto simp: c look1)
      show ?thesis
        unfolding step using a b c' d by (simp add: keys1 same)
    qed
  qed
qed

lemma join_room_full:
  assumes "join_roomId d = Some raw" "valid_room (js_String raw)" "full_identity (join_identity d)"
  shows "join_room sid d st =
     (st\<lparr>socket_rooms := insert (sid, js_String raw) (socket_rooms st),
         roomParticipants := AList.update (js_String raw)
            (AList.update sid (join_identity d) (participants_of st (js_String raw))) (roomParticipants st)\<rparr>,
      emitActiveStudentCount (js_String raw)
        (AList.update (js_String raw)
            (AList.update sid (join_identity d) (participants_of st (js_String raw))) (roomParticipants st)))"
  using assms
  by (cases "map_of (roomParticipants st) (js_String raw)")
     (simp_all add: join_room_def valid_room_def full_identity_def participants_of_def Let_def AList.update_conv')

lemma join_room_anonymous:
  assumes "join_roomId d = Some raw" "valid_room (js_String raw)" "\<not> full_identity (join_identity d)"
  shows "join_room sid d st = (st\<lparr>socket_rooms := insert (sid, js_String raw) (socket_rooms st)\<rparr>, [])"
  using assms by (auto simp add: join_room_def valid_room_def full_identity_def Let_def)

lemma join_room_dropped:
  assumes "join_roomId d = Some raw" "\<not> valid_room (js_String raw)"
  shows "join_room sid d st = (st, [])"
  using assms by (auto simp add: join_room_def valid_room_def Let_def)

lemma join_room_throws:
  assumes "join_roomId d = None"
  shows "join_room sid d st = (st, [Uncaught TypeError])"
  using assms by (simp add: join_room_def)

lemma leave_room_present:
  assumes "map_of (roomParticipants st) r = Some ps"
  shows "leave_room sid (LeavePayload (JStr r)) st =
     (st\<lparr>socket_rooms := socket_rooms st - {(sid, r)},
         roomParticipants := AList.update r (AList.delete sid ps) (roomParticipants st)\<rparr>,
      emitActiveStudentCount r (AList.update r (AList.delete sid ps) (roomParticipants st)))"
  using assms by (simp add: leave_room_def Let_def)

lemma leave_room_absent:
  assumes "rooms_get (roomParticipants st) v = None"
  shows "leave_room sid (LeavePayload v) st = (st\<lparr>socket_rooms := socket_leave sid v (socket_rooms st)\<rparr>, [])"
  using assms by (simp add: leave_room_def Let_def)

lemma rooms_get_Some:
  "rooms_get rp v = Some ps \<Longrightarrow> \<exists>r. v = JStr r \<and> map_of rp r = Some ps"
  by (cases v) simp_all


section \<open>The effects of the fan-out loops\<close>

lemma send_notification_loop_kinds:
  "e \<in> set (fst (snd (send_notification_loop lower c p pn t b now us d))) \<Longrightarrow>
   row_user e \<noteq> [] \<or> notified_socket e \<noteq> []"
  by (induction lower c p pn t b now us d rule: send_notification_loop.induct)
     (auto split: option.splits prod.splits if_splits)

lemma lecture_loop_kinds:
  "e \<in> set (fst (snd (lecture_loop lower c ed l t b now us d))) \<Longrightarrow>
   row_user e \<noteq> [] \<or> notified_socket e \<noteq> []"
  by (induction lower c ed l t b now us d rule: lecture_loop.induct)
     (auto split: option.splits prod.splits if_splits)

lemma pin_loop_kinds:
  "e \<in> set (fst (snd (pin_loop lower c t b m r now seen us d))) \<Longrightarrow>
   row_user e \<noteq> [] \<or> notified_socket e \<noteq> []"
  by (induction lower c t b m r now seen us d rule: pin_loop.induct)
     (auto split: option.splits prod.splits if_splits)


section \<open>Handlers that leave the rooms alone\<close>

lemma register_user_quiet:
  "roomParticipants (fst (register_user sid p st)) = roomParticipants st
   \<and> Emit t (ActiveStudentCount room c) \<notin> set (snd (register_user sid p st))"
  by (simp add: register_user_def Let_def split: option.splits)

lemma send_message_quiet:
  "roomParticipants (fst (send_message sid now p st)) = roomParticipants st
   \<and> Emit t (ActiveStudentCount room c) \<notin> set (snd (send_message sid now p st))"
  by (simp add: send_message_def Let_def split: option.splits prod.splits)

lemma timeout_fires_quiet:
  "roomParticipants (fst (timeout_fires x now st)) = roomParticipants st
   \<and> Emit t (ActiveStudentCount room c) \<notin> set (snd (timeout_fires x now st))"
  by (simp add: timeout_fires_def)

lemma send_notification_quiet:
  "roomParticipants (fst (send_notification lower sid now p st)) = roomParticipants st
   \<and> Emit t (ActiveStudentCount room c) \<notin> set (snd (send_notification lower sid now p st))"
proof -
  have "Emit t (ActiveStudentCount room c) \<notin> set effs"
    if "send_notification_loop lower a b pn ti bo now us d = (d', effs, th)" for a b pn ti bo us d d' effs th
    using send_notification_loop_kinds [of "Emit t (ActiveStudentCount room c)" lower a b pn ti bo now us d] that
    by auto
  then show ?thesis
    by (auto simp add: send_notification_def Let_def split: option.splits prod.splits)
qed

lemma lecture_update_notify_quiet:
  "roomParticipants (fst (lecture_update_notify lower lu now st)) = roomParticipants st
   \<and> Emit t (ActiveStudentCount room c) \<notin> set (snd (lecture_update_notify lower lu now st))"
proof -
  have "Emit t (ActiveStudentCount room c) \<notin> set effs"
    if "lecture_loop lower a b l ti bo now us d = (d', effs, th)" for a b l ti bo us d d' effs th
    using lecture_loop_kinds [of "Emit t (ActiveStudentCount room c)" lower a b l ti bo now us d] that
    by auto
  then show ?thesis
    by (auto simp add: lecture_update_notify_def Let_def split: option.splits prod.splits)
qed

lemma pin_system_message_quiet:
  "Emit t (ActiveStudentCount room c) \<notin> set (snd (pin_system_message m now d))"
  by (simp add: pin_system_message_def Let_def split: option.splits prod.splits)

lemma pin_message_quiet:
  "roomParticipants (fst (pin_message lower req sel now st)) = roomParticipants st
   \<and> Emit t (ActiveStudentCount room c) \<notin> set (snd (pin_message lower req sel now st))"
proof -
  have loop: "Emit t (ActiveStudentCount room c) \<notin> set effs"
    if "pin_loop lower a ti bo m r now seen us d = (d', effs, th)" for a ti bo m r seen us d d' effs th
    using pin_loop_kinds [of "Emit t (ActiveStudentCount room c)" lower a ti bo m r now seen us d] that
    by auto
  have sys: "Emit t (ActiveStudentCount room c) \<notin> set effs"
    if "pin_system_message m now d = (d', effs)" for m d d' effs
    using pin_system_message_quiet [of t room c m now d] that by simp
  show ?thesis
  proof (cases sel)
    case DbErr
    then show ?thesis by (simp add: pin_message_def)
  next
    case (DbRow row)
    show ?thesis
    proof (cases row)
      case None
      with DbRow show ?thesis by (simp add: pin_message_def)
    next
      case (Some message)
      with DbRow loop sys show ?thesis
        by (auto simp add: pin_message_def Let_def split: option.splits prod.splits bool.splits)
    qed
  qed
qed

section \<open>The keys of the rooms stay distinct\<close>

lemma participants_distinct:
  "wf_rooms (roomParticipants st) \<Longrightarrow> distinct (map fst (participants_of st room))"
  by (auto simp: participants_of_def split: option.splits dest: wf_rooms_lookup)

lemma join_room_wf:
  assumes "wf_rooms (roomParticipants st)"
  shows "wf_rooms (roomParticipants (fst (join_room sid d st)))"
proof (cases "join_roomId d")
  case None
  with assms show ?thesis by (simp add: join_room_throws)
next
  case (Some raw)
  show ?thesis
  proof (cases "valid_room (js_String raw)")
    case False
    with Some assms show ?thesis by (simp add: join_room_dropped)
  next
    case True
    show ?thesis
    proof (cases "full_identity (join_identity d)")
      case False
      with Some True assms show ?thesis by (simp add: join_room_anonymous)
    next
      case full: True
      have "distinct (map fst (AList.update sid (join_identity d) (participants_of st (js_String raw))))"
        using participants_distinct [OF assms] by (simp add: AList.distinct_update)
      with assms show ?thesis
        by (simp add: join_room_full [OF Some True full] wf_rooms_update)
    qed
  qed
qed

lemma leave_room_wf:
  assumes "wf_rooms (roomParticipants st)"
  shows "wf_rooms (roomParticipants (fst (leave_room sid d st)))"
proof (cases d)
  case LeaveNullish
  with assms show ?thesis by (simp add: leave_room_def)
next
  case (LeavePayload v)
  show ?thesis
  proof (cases "rooms_get (roomParticipants st) v")
    case None
    with LeavePayload assms show ?thesis by (simp add: leave_room_absent)
  next
    case (Some ps)
    then obtain r where r: "v = JStr r" "map_of (roomParticipants st) r = Some ps"
      by (auto dest: rooms_get_Some)
    have "distinct (map fst (AList.delete sid ps))"
      using wf_rooms_lookup [OF assms r(2)] by (simp add: AList.distinct_delete)
    with assms show ?thesis
      by (simp add: LeavePayload r(1) leave_room_present [OF r(2)] wf_rooms_update)
  qed
qed

lemma disconnect_unfold:
  "disconnect sid st =
     (st\<lparr>connectedUsers := AList.delete sid (connectedUsers st),
         roomParticipants := fst (disconnect_rooms sid (map fst (roomParticipants st)) (roomParticipants st))\<rparr>,
      snd (disconnect_rooms sid (map fst (roomParticipants st)) (roomParticipants st)))"
  by (simp add: disconnect_def Let_def split: prod.splits)

lemma disconnect_wf:
  assumes "wf_rooms (roomParticipants st)"
  shows "wf_rooms (roomParticipants (fst (disconnect sid st)))"
proof -
  have "distinct (map fst (roomParticipants st))" using assms by (simp add: wf_rooms_def)
  from disconnect_rooms_spec [OF assms this, of sid] show ?thesis
    by (simp add: disconnect_unfold)
qed

lemma handle_wf:
  "wf_rooms (roomParticipants st) \<Longrightarrow> wf_rooms (roomParticipants (fst (handle lower r st)))"
  by (cases r)
     (simp_all add: join_room_wf leave_room_wf disconnect_wf register_user_quiet send_message_quiet
        send_notification_quiet timeout_fires_quiet lecture_update_notify_quiet pin_message_quiet)

lemma state_after_wf:
  "wf_rooms (roomParticipants st) \<Longrightarrow> wf_rooms (roomParticipants (state_after lower rs st))"
  by (induction rs arbitrary: st) (simp_all add: handle_wf)

lemma reachable_wf: "wf_rooms (roomParticipants (state_after lower rs (init_server fs)))"
  by (rule state_after_wf) (simp add: init_server_def wf_rooms_def)


section \<open>The published count\<close>

lemma emit_active_count:
  assumes "wf_rooms (roomParticipants st)"
  shows "emitActiveStudentCount room (roomParticipants st) =
         [Emit (To room) (ActiveStudentCount room (active_count st room))]"
  using emit_count [OF assms, of room] by (simp add: active_count_def participants_of_def)

lemma participants_of_update:
  "participants_of (st\<lparr>roomParticipants := AList.update r ps (roomParticipants st)\<rparr>) room =
     (if room = r then ps else participants_of st room)"
  by (simp add: participants_of_def AList.update_conv')

lemma join_room_counts:
  assumes wf: "wf_rooms (roomParticipants st)"
  shows "(Emit t (ActiveStudentCount room c) \<in> set (snd (join_room sid d st)) \<longrightarrow>
            t = To room \<and> c = active_count (fst (join_room sid d st)) room)
       \<and> (participants_of (fst (join_room sid d st)) room \<noteq> participants_of st room \<longrightarrow>
            Emit (To room) (ActiveStudentCount room (active_count (fst (join_room sid d st)) room))
              \<in> set (snd (join_room sid d st)))"
proof (cases "join_roomId d")
  case None
  then show ?thesis by (simp add: join_room_throws)
next
  case (Some raw)
  show ?thesis
  proof (cases "valid_room (js_String raw)")
    case False
    with Some show ?thesis by (simp add: join_room_dropped)
  next
    case True
    show ?thesis
    proof (cases "full_identity (join_identity d)")
      case False
      with Some True show ?thesis by (simp add: join_room_anonymous participants_of_def)
    next
      case full: True
      define st' where "st' = fst (join_room sid d st)"
      have wf': "wf_rooms (roomParticipants st')"
        unfolding st'_def using wf by (rule join_room_wf)
      have rp': "roomParticipants st' = AList.update (js_String raw)
            (AList.update sid (join_identity d) (participants_of st (js_String raw))) (roomParticipants st)"
        by (simp add: st'_def join_room_full [OF Some True full])
      have effs: "snd (join_room sid d st) =
           [Emit (To (js_String raw)) (ActiveStudentCount (js_String raw) (active_count st' (js_String raw)))]"
        using emit_active_count [OF wf', of "js_String raw"]
        by (simp add: join_room_full [OF Some True full] rp')
      have other: "participants_of st' room = participants_of st room" if "room \<noteq> js_String raw"
        using that by (simp add: participants_of_def rp' AList.update_conv')
      show ?thesis
        unfolding st'_def [symmetric] effs using other by auto
    qed
  qed
qed

lemma leave_room_counts:
  assumes wf: "wf_rooms (roomParticipants st)"
  shows "(Emit t (ActiveStudentCount room c) \<in> set (snd (leave_room sid d st)) \<longrightarrow>
            t = To room \<and> c = active_count (fst (leave_room sid d st)) room)
       \<and> (participants_of (fst (leave_room sid d st)) room \<noteq> participants_of st room \<longrightarrow>
            Emit (To room) (ActiveStudentCount room (active_count (fst (leave_room sid d st)) room))
              \<in> set (snd (leave_room sid d st)))"
proof (cases d)
  case LeaveNullish
  then show ?thesis by (simp add: leave_room_def)
next
  case (LeavePayload v)
  show ?thesis
  proof (cases "rooms_get (roomParticipants st) v")
    case None
    with LeavePayload show ?thesis by (simp add: leave_room_absent participants_of_def)
  next
    case (Some ps)
    then obtain r where r: "v = JStr r" "map_of (roomParticipants st) r = Some ps"
      by (auto dest: rooms_get_Some)
    define st' where "st' = fst (leave_room sid d st)"
    have wf': "wf_rooms (roomParticipants st')"
      unfolding st'_def using wf by (rule leave_room_wf)
    have rp': "roomParticipants st' = AList.update r (AList.delete sid ps) (roomParticipants st)"
      by (simp add: st'_def LeavePayload r(1) leave_room_present [OF r(2)])
    have effs: "snd (leave_room sid d st) = [Emit (To r) (ActiveStudentCount r (active_count st' r))]"
      using emit_active_count [OF wf', of r]
      by (simp add: LeavePayload r(1) leave_room_present [OF r(2)] rp')
    have other: "participants_of st' room = participants_of st room" if "room \<noteq> r"
      using that by (simp add: participants_of_def rp' AList.update_conv')
    show ?thesis
      unfolding st'_def [symmetric] effs using other by auto
  qed
qed

lemma disconnect_rooms_lookup:
  assumes wf: "wf_rooms (roomParticipants st)"
  shows "map_of (roomParticipants (fst (disconnect sid st))) room =
         map_option (AList.delete sid) (map_of (roomParticipants st) room)"
proof -
  have dk: "distinct (map fst (roomParticipants st))" using wf by (simp add: wf_rooms_def)
  have "room \<notin> set (map fst (roomParticipants st)) \<Longrightarrow> map_of (roomParticipants st) room = None"
    by (simp add: map_of_eq_None_iff)
  with disconnect_rooms_spec [OF wf dk, of sid] show ?thesis
    by (auto simp add: disconnect_unfold)
qed

lemma disconnect_participants:
  assumes wf: "wf_rooms (roomParticipants st)"
  shows "participants_of (fst (disconnect sid st)) room = AList.delete sid (participants_of st room)"
  by (simp add: participants_of_def disconnect_rooms_lookup [OF wf] split: option.splits)

lemma disconnect_effects:
  assumes wf: "wf_rooms (roomParticipants st)"
  shows "snd (disconnect sid st) =
         concat (map (left_room sid (roomParticipants st)) (map fst (roomParticipants st)))"
proof -
  have dk: "distinct (map fst (roomParticipants st))" using wf by (simp add: wf_rooms_def)
  from disconnect_rooms_spec [OF wf dk, of sid] show ?thesis
    by (simp add: disconnect_unfold)
qed

lemma left_room_event:
  assumes wf: "wf_rooms (roomParticipants st)"
  shows "left_room sid (roomParticipants st) room =
     (if sid \<in> fst ` set (participants_of st room)
      then [Emit (To room) (ActiveStudentCount room (active_count (fst (disconnect sid st)) room))]
      else [])"
proof -
  have c: "active_count (fst (disconnect sid st)) room =
           card (students_in (AList.delete sid (participants_of st room)))"
    by (simp only: active_count_def disconnect_participants [OF wf])
  show ?thesis
    unfolding c by (simp add: left_room_def participants_of_def split: option.splits)
qed

lemma disconnect_emits_iff:
  assumes wf: "wf_rooms (roomParticipants st)"
  shows "(Emit t (ActiveStudentCount room c) \<in> set (snd (disconnect sid st))) =
         (sid \<in> fst ` set (participants_of st room) \<and> t = To room
          \<and> c = active_count (fst (disconnect sid st)) room)"
proof
  assume "Emit t (ActiveStudentCount room c) \<in> set (snd (disconnect sid st))"
  then obtain r where r: "Emit t (ActiveStudentCount room c) \<in> set (left_room sid (roomParticipants st) r)"
    by (auto simp add: disconnect_effects [OF wf])
  then have "r = room"
    by (auto simp add: left_room_event [OF wf] split: if_splits)
  with r show "sid \<in> fst ` set (participants_of st room) \<and> t = To room
          \<and> c = active_count (fst (disconnect sid st)) room"
    by (auto simp add: left_room_event [OF wf] split: if_splits)
next
  assume a: "sid \<in> fst ` set (participants_of st room) \<and> t = To room
          \<and> c = active_count (fst (disconnect sid st)) room"
  then have "participants_of st room \<noteq> []" by auto
  then have "room \<in> set (map fst (roomParticipants st))"
    by (auto simp add: participants_of_def split: option.splits dest: map_of_SomeD intro: rev_image_eqI)
  moreover have "Emit t (ActiveStudentCount room c) \<in> set (left_room sid (roomParticipants st) room)"
    using a by (simp add: left_room_event [OF wf])
  ultimately show "Emit t (ActiveStudentCount room c) \<in> set (snd (disconnect sid st))"
    unfolding disconnect_effects [OF wf] by (simp del: map_map) blast
qed

lemma disconnect_counts:
  assumes wf: "wf_rooms (roomParticipants st)"
  shows "(Emit t (ActiveStudentCount room c) \<in> set (snd (disconnect sid st)) \<longrightarrow>
            t = To room \<and> c = active_count (fst (disconnect sid st)) room)
       \<and> (participants_of (fst (disconnect sid st)) room \<noteq> participants_of st room \<longrightarrow>
            Emit (To room) (ActiveStudentCount room (active_count (fst (disconnect sid st)) room))
              \<in> set (snd (disconnect sid st)))"
proof -
  have "sid \<in> fst ` set (participants_of st room)"
    if "participants_of (fst (disconnect sid st)) room \<noteq> participants_of st room"
  proof (rule ccontr)
    assume "sid \<notin> fst ` set (participants_of st room)"
    then have "AList.delete sid (participants_of st room) = participants_of st room" by simp
    with that show False by (simp add: disconnect_participants [OF wf])
  qed
  then show ?thesis
    by (simp add: disconnect_emits_iff [OF wf])
qed

lemma handle_counts:
  assumes wf: "wf_rooms (roomParticipants st)"
  shows "(Emit t (ActiveStudentCount room c) \<in> set (snd (handle lower r st)) \<longrightarrow>
            t = To room \<and> c = active_count (fst (handle lower r st)) room)
       \<and> (participants_of (fst (handle lower r st)) room \<noteq> participants_of st room \<longrightarrow>
            Emit (To room) (ActiveStudentCount room (active_count (fst (handle lower r st)) room))
              \<in> set (snd (handle lower r st)))"
proof (cases r)
  case (JoinRoom sid d)
  with join_room_counts [OF wf] show ?thesis by simp
next
  case (LeaveRoom sid d)
  with leave_room_counts [OF wf] show ?thesis by simp
next
  case (Disconnect sid)
  with disconnect_counts [OF wf] show ?thesis by simp
qed (simp_all add: participants_of_def register_user_quiet send_message_quiet
        send_notification_quiet timeout_fires_quiet lecture_update_notify_quiet pin_message_quiet)


section \<open>Claims on presence\<close>

lemmas example_defs = ann_join_def bob_join_def cat_join_def bob_user_def presence_run_def

lemmas presence_eval = join_room_def leave_room_def disconnect_def register_user_def
  emitActiveStudentCount_def init_server_def init_db_def js_or_def Let_def lit_def

lemma example_rooms:
  "dec_int 5 = lit ''5''" "valid_room (lit ''5'')" "valid_room (lit ''R1'')"
  "\<not> valid_room (lit ''null'')" "\<not> valid_room (lit ''undefined'')"
  by (simp_all add: dec_int_def dec_nat.simps valid_room_def lit_def)

text \<open>
  Claim C3, where the code departs from it. \<^verbatim>\<open>join_room\<close> stores a participant under
  the \<^verbatim>\<open>String\<close> of the room identifier; \<^verbatim>\<open>leave_room\<close> looks the identifier up as it
  comes. Student A joins the room 5, named by the number: the count 1 is published for
  the room \<^verbatim>\<open>"5"\<close>. A leaves the room 5, named by the same number: no room is found,
  the state is unchanged and nothing is published. Student C joins the room 5: the
  count 2 is published, although A has left and C is the one student in the room.
  Had A left by the string \<^verbatim>\<open>"5"\<close>, A would have been removed and the count 0
  published.
\<close>

theorem leave_by_number_keeps_participant:
  "snd (join_room (lit ''A'') ann_join_5 (init_server []))
     = [Emit (To (lit ''5'')) (ActiveStudentCount (lit ''5'') 1)]
   \<and> leave_room (lit ''A'') (LeavePayload (JNum 5)) ann_in_5 = (ann_in_5, [])
   \<and> snd (join_room (lit ''C'') cat_join_5 ann_in_5)
     = [Emit (To (lit ''5'')) (ActiveStudentCount (lit ''5'') 2)]
   \<and> snd (leave_room (lit ''A'') (LeavePayload (JStr (lit ''5''))) ann_in_5)
     = [Emit (To (lit ''5'')) (ActiveStudentCount (lit ''5'') 0)]"
proof -
  have v: "lit ''5'' \<noteq> []" "lit ''5'' \<noteq> lit ''undefined''" "lit ''5'' \<noteq> lit ''null''"
    "lit ''A'' \<noteq> lit ''C''" "lit ''Ann'' \<noteq> []" "lit ''Cat'' \<noteq> []" "lit ''student'' \<noteq> []"
    by (simp_all add: lit_def)
  have st: "ann_in_5 = (init_server [])\<lparr>socket_rooms := {(lit ''A'', lit ''5'')},
      roomParticipants := [(lit ''5'', [(lit ''A'',
         \<lparr>userId = JNum 1, userName = JStr (lit ''Ann''), role = JStr (lit ''student'')\<rparr>)])]\<rparr>"
    by (simp add: ann_in_5_def ann_join_5_def join_room_def js_or_def example_rooms(1) v Let_def init_server_def)
  have a: "snd (join_room (lit ''A'') ann_join_5 (init_server []))
     = [Emit (To (lit ''5'')) (ActiveStudentCount (lit ''5'') 1)]"
    by (simp add: ann_join_5_def join_room_def js_or_def example_rooms(1) v Let_def init_server_def
          emitActiveStudentCount_def)
  have b: "leave_room (lit ''A'') (LeavePayload (JNum 5)) ann_in_5 = (ann_in_5, [])"
    by (simp add: leave_room_def Let_def)
  have c: "snd (join_room (lit ''C'') cat_join_5 ann_in_5)
     = [Emit (To (lit ''5'')) (ActiveStudentCount (lit ''5'') 2)]"
    by (simp add: st cat_join_5_def join_room_def js_or_def example_rooms(1) v Let_def init_server_def
          emitActiveStudentCount_def)
  have d: "snd (leave_room (lit ''A'') (LeavePayload (JStr (lit ''5''))) ann_in_5)
     = [Emit (To (lit ''5'')) (ActiveStudentCount (lit ''5'') 0)]"
    by (simp add: st leave_room_def Let_def init_server_def emitActiveStudentCount_def)
  from a b c d show ?thesis by (intro conjI)
qed

lemma rooms_entry:
  assumes "wf_rooms (roomParticipants st)" "e \<in> set (roomParticipants st)"
  shows "snd e = participants_of st (fst e)"
proof -
  have "distinct (map fst (roomParticipants st))" using assms(1) by (simp add: wf_rooms_def)
  with assms(2) have "map_of (roomParticipants st) (fst e) = Some (snd e)"
    by (simp add: map_of_eq_Some_iff)
  then show ?thesis by (simp add: participants_of_def)
qed

lemma disconnect_registry:
  "connectedUsers (fst (disconnect sid st)) = AList.delete sid (connectedUsers st)"
  by (simp add: disconnect_unfold)

text \<open>
  Claim C2, as amended. After the disconnect of a connection in any reachable state,
  the connection is absent from the registry and from the participants of every room,
  and each room that had it gets its count published. No room refers to the
  disconnected connection any more; and when every participant was registered before
  the disconnect, every participant is registered after it.
\<close>

theorem disconnect_cleanup:
  "let st = state_after lower rs (init_server fs); st' = fst (disconnect sid st); effs = snd (disconnect sid st) in
     sid \<notin> fst ` set (connectedUsers st')
   \<and> (\<forall>e \<in> set (roomParticipants st'). sid \<notin> fst ` set (snd e))
   \<and> (\<forall>room. sid \<notin> fst ` set (participants_of st' room))
   \<and> (\<forall>room. sid \<in> fst ` set (participants_of st room) \<longrightarrow>
         Emit (To room) (ActiveStudentCount room (active_count st' room)) \<in> set effs)
   \<and> ((\<forall>room. fst ` set (participants_of st room) \<subseteq> fst ` set (connectedUsers st)) \<longrightarrow>
        (\<forall>room. fst ` set (participants_of st' room) \<subseteq> fst ` set (connectedUsers st')))"
proof -
  define st where "st = state_after lower rs (init_server fs)"
  define st' where "st' = fst (disconnect sid st)"
  have wf: "wf_rooms (roomParticipants st)" unfolding st_def by (rule reachable_wf)
  have wf': "wf_rooms (roomParticipants st')" unfolding st'_def using wf by (rule disconnect_wf)
  have p: "participants_of st' room = AList.delete sid (participants_of st room)" for room
    unfolding st'_def by (rule disconnect_participants [OF wf])
  have u: "connectedUsers st' = AList.delete sid (connectedUsers st)"
    unfolding st'_def by (rule disconnect_registry)
  have a: "sid \<notin> fst ` set (connectedUsers st')"
    unfolding u by (rule AList.delete_notin_dom)
  have c: "sid \<notin> fst ` set (participants_of st' room)" for room
    unfolding p by (rule AList.delete_notin_dom)
  have b: "sid \<notin> fst ` set (snd e)" if "e \<in> set (roomParticipants st')" for e
    using rooms_entry [OF wf' that] c by simp
  have d: "Emit (To room) (ActiveStudentCount room (active_count st' room)) \<in> set (snd (disconnect sid st))"
    if "sid \<in> fst ` set (participants_of st room)" for room
    using that by (simp add: disconnect_emits_iff [OF wf] st'_def)
  have keys: "fst ` set (AList.delete sid xs) = fst ` set xs - {sid}" for xs :: "(socket_id \<times> 'b) list"
    by (induction xs) auto
  have e: "fst ` set (participants_of st' room) \<subseteq> fst ` set (connectedUsers st')"
    if "\<forall>room. fst ` set (participants_of st room) \<subseteq> fst ` set (connectedUsers st)" for room
    using that unfolding p u keys by blast
  have "sid \<notin> fst ` set (connectedUsers st')
   \<and> (\<forall>e \<in> set (roomParticipants st'). sid \<notin> fst ` set (snd e))
   \<and> (\<forall>room. sid \<notin> fst ` set (participants_of st' room))
   \<and> (\<forall>room. sid \<in> fst ` set (participants_of st room) \<longrightarrow>
         Emit (To room) (ActiveStudentCount room (active_count st' room)) \<in> set (snd (disconnect sid st)))
   \<and> ((\<forall>room. fst ` set (participants_of st room) \<subseteq> fst ` set (connectedUsers st)) \<longrightarrow>
        (\<forall>room. fst ` set (participants_of st' room) \<subseteq> fst ` set (connectedUsers st')))"
  proof (intro conjI ballI allI impI)
    show "sid \<notin> fst ` set (connectedUsers st')" by (rule a)
    show "sid \<notin> fst ` set (snd x)" if "x \<in> set (roomParticipants st')" for x
      using that by (rule b)
    show "sid \<notin> fst ` set (participants_of st' room)" for room by (rule c)
    show "Emit (To room) (ActiveStudentCount room (active_count st' room)) \<in> set (snd (disconnect sid st))"
      if "sid \<in> fst ` set (participants_of st room)" for room
      using that by (rule d)
    show "fst ` set (participants_of st' room) \<subseteq> fst ` set (connectedUsers st')"
      if "\<forall>room. fst ` set (participants_of st room) \<subseteq> fst ` set (connectedUsers st)" for room
      using that by (rule e)
  qed
  then show ?thesis
    unfolding Let_def st'_def st_def .
qed

lemma leaving_run_state:
  "participants_of (state_after ascii_lower leaving_run (init_server [])) (lit ''R1'') =
     [(lit ''A'', \<lparr>userId = JNum 1, userName = JStr (lit ''Ann''), role = JStr (lit ''student'')\<rparr>),
      (lit ''B'', \<lparr>userId = JNum 2, userName = JStr (lit ''Bob''), role = JStr (lit ''representative'')\<rparr>)]
   \<and> map fst (connectedUsers (state_after ascii_lower leaving_run (init_server []))) = [lit ''B'']"
  by (simp add: leaving_run_def example_defs presence_eval participants_of_def)

theorem disconnect_cleanup_witness:
  "lit ''B'' \<in> fst ` set (participants_of (state_after ascii_lower leaving_run (init_server [])) (lit ''R1''))
   \<and> lit ''B'' \<notin> fst ` set (connectedUsers (fst (disconnect (lit ''B'') (state_after ascii_lower leaving_run (init_server [])))))
   \<and> lit ''B'' \<notin> fst ` set (participants_of (fst (disconnect (lit ''B'') (state_after ascii_lower leaving_run (init_server []))))
         (lit ''R1''))
   \<and> Emit (To (lit ''R1'')) (ActiveStudentCount (lit ''R1'')
         (active_count (fst (disconnect (lit ''B'') (state_after ascii_lower leaving_run (init_server [])))) (lit ''R1'')))
       \<in> set (snd (disconnect (lit ''B'') (state_after ascii_lower leaving_run (init_server []))))"
proof -
  have m: "lit ''B'' \<in> fst ` set (participants_of (state_after ascii_lower leaving_run (init_server [])) (lit ''R1''))"
    by (simp add: leaving_run_state)
  note t = disconnect_cleanup [where lower = ascii_lower and sid = "lit ''B''" and rs = leaving_run and fs = "[]",
      unfolded Let_def]
  from t have a: "lit ''B'' \<notin> fst ` set (connectedUsers (fst (disconnect (lit ''B'') (state_after ascii_lower leaving_run (init_server [])))))"
    by (elim conjE)
  from t have "\<forall>room. lit ''B'' \<notin> fst ` set (participants_of
         (fst (disconnect (lit ''B'') (state_after ascii_lower leaving_run (init_server [])))) room)"
    by (elim conjE)
  then have b: "lit ''B'' \<notin> fst ` set (participants_of
         (fst (disconnect (lit ''B'') (state_after ascii_lower leaving_run (init_server [])))) (lit ''R1''))"
    by (rule spec)
  from t have "\<forall>room. lit ''B'' \<in> fst ` set (participants_of (state_after ascii_lower leaving_run (init_server [])) room) \<longrightarrow>
         Emit (To room) (ActiveStudentCount room
           (active_count (fst (disconnect (lit ''B'') (state_after ascii_lower leaving_run (init_server [])))) room))
         \<in> set (snd (disconnect (lit ''B'') (state_after ascii_lower leaving_run (init_server []))))"
    by (elim conjE)
  then have c: "Emit (To (lit ''R1'')) (ActiveStudentCount (lit ''R1'')
         (active_count (fst (disconnect (lit ''B'') (state_after ascii_lower leaving_run (init_server [])))) (lit ''R1'')))
       \<in> set (snd (disconnect (lit ''B'') (state_after ascii_lower leaving_run (init_server []))))"
    using m by blast
  from m a b c show ?thesis by (intro conjI)
qed

text \<open>
  Claim C2 as stated fails: \<^verbatim>\<open>join_room\<close> does not ask for a registration, so a room can
  hold a connection that the registry never had. Here A joins R1 without registering,
  B registers, joins and disconnects; after the cleanup R1 still refers to A.
\<close>

theorem disconnect_leaves_unregistered_counterexample:
  "lit ''A'' \<in> fst ` set (participants_of (fst (disconnect (lit ''B'') (state_after ascii_lower leaving_run (init_server []))))
       (lit ''R1''))
   \<and> lit ''A'' \<notin> fst ` set (connectedUsers (fst (disconnect (lit ''B'') (state_after ascii_lower leaving_run (init_server [])))))"
proof -
  have wf: "wf_rooms (roomParticipants (state_after ascii_lower leaving_run (init_server [])))"
    by (rule reachable_wf)
  have ne: "lit ''A'' \<noteq> lit ''B''" by (simp add: lit_def)
  have keys: "fst ` set (AList.delete sid xs) = fst ` set xs - {sid}" for sid and xs :: "(socket_id \<times> 'b) list"
    by (induction xs) auto
  have u: "fst ` set (connectedUsers (state_after ascii_lower leaving_run (init_server []))) = {lit ''B''}"
    using leaving_run_state by (simp only: set_map [symmetric]) simp
  have p: "fst ` set (participants_of (state_after ascii_lower leaving_run (init_server [])) (lit ''R1'')) = {lit ''A'', lit ''B''}"
    by (simp add: leaving_run_state)
  show ?thesis
    unfolding disconnect_participants [OF wf] disconnect_registry keys u p using ne by simp
qed


section \<open>Claims on joining a room\<close>

lemma join_room_number:
  "join_room sid (JPrim (JNum n)) st = join_room sid (JPrim (JStr (dec_int (sint n)))) st"
  by (simp add: join_room_def)

text \<open>
  Claim C7. The room identifier of a \<^verbatim>\<open>join_room\<close> is the payload itself when it is a
  string or a number, and \<^verbatim>\<open>roomId || room\<close> of a structured payload; the room that is
  joined and under which the participant is stored is its \<^verbatim>\<open>String\<close>. When that string
  is empty, \<^verbatim>\<open>"undefined"\<close> (a missing identifier) or \<^verbatim>\<open>"null"\<close>, the join is dropped:
  the state is unchanged (no room joined, no participant stored) and there is no
  effect. When the payload itself is \<^verbatim>\<open>undefined\<close> or \<^verbatim>\<open>null\<close> the handler throws, with
  the state unchanged and nothing emitted. Otherwise the socket joins the room of that
  string, only the participants of that room can change, every event goes to that
  room, and with a full identity the participant is stored under the socket. A number
  (an integer from \<open>- 2^53\<close> to \<open>2^53 - 1\<close>) and its decimal numeral name the same room.
\<close>

theorem join_room_identifier:
  "(case join_roomId d of
      None \<Rightarrow> join_room sid d st = (st, [Uncaught TypeError])
    | Some raw \<Rightarrow>
        if valid_room (js_String raw) then
          socket_rooms (fst (join_room sid d st)) = insert (sid, js_String raw) (socket_rooms st)
          \<and> (\<forall>room. room \<noteq> js_String raw \<longrightarrow>
                participants_of (fst (join_room sid d st)) room = participants_of st room)
          \<and> (\<forall>t e. Emit t e \<in> set (snd (join_room sid d st)) \<longrightarrow> t = To (js_String raw))
          \<and> (full_identity (join_identity d) \<longrightarrow>
                map_of (participants_of (fst (join_room sid d st)) (js_String raw)) sid = Some (join_identity d))
        else join_room sid d st = (st, []))
   \<and> join_room sid (JPrim (JNum n)) st = join_room sid (JPrim (JStr (dec_int (sint n)))) st"
proof -
  have "join_room sid d st = (st, [Uncaught TypeError])" if "join_roomId d = None"
    using that by (rule join_room_throws)
  moreover have "join_room sid d st = (st, [])"
    if "join_roomId d = Some raw" "\<not> valid_room (js_String raw)" for raw
    using that by (rule join_room_dropped)
  moreover have "socket_rooms (fst (join_room sid d st)) = insert (sid, js_String raw) (socket_rooms st)
          \<and> (\<forall>room. room \<noteq> js_String raw \<longrightarrow>
                participants_of (fst (join_room sid d st)) room = participants_of st room)
          \<and> (\<forall>t e. Emit t e \<in> set (snd (join_room sid d st)) \<longrightarrow> t = To (js_String raw))
          \<and> (full_identity (join_identity d) \<longrightarrow>
                map_of (participants_of (fst (join_room sid d st)) (js_String raw)) sid = Some (join_identity d))"
    if r: "join_roomId d = Some raw" and v: "valid_room (js_String raw)" for raw
  proof (cases "full_identity (join_identity d)")
    case False
    then show ?thesis
      by (simp add: join_room_anonymous [OF r v] participants_of_def)
  next
    case True
    show ?thesis
      by (simp add: join_room_full [OF r v True] True participants_of_def AList.update_conv'
            emitActiveStudentCount_def split: option.splits)
  qed
  ultimately show ?thesis
    by (simp add: join_room_number split: option.splits)
qed

theorem join_room_identifier_witness:
  "join_room (lit ''A'') (JObj \<lparr>jp_roomId = JUndefined, jp_room = JUndefined, jp_userId = JNum 1,
      jp_userName = JStr (lit ''Ann''), jp_role = JStr (lit ''student'')\<rparr>) (init_server [])
     = (init_server [], [])
   \<and> join_room (lit ''A'') (JPrim (JStr (lit ''null''))) (init_server []) = (init_server [], [])
   \<and> join_room (lit ''A'') (JPrim JUndefined) (init_server []) = (init_server [], [Uncaught TypeError])
   \<and> socket_rooms (fst (join_room (lit ''A'') (JPrim (JNum 5)) (init_server []))) = {(lit ''A'', lit ''5'')}
   \<and> join_room (lit ''A'') (JPrim (JNum 5)) (init_server [])
       = join_room (lit ''A'') (JPrim (JStr (lit ''5''))) (init_server [])"
proof -
  note t = join_room_identifier [where sid = "lit ''A''" and st = "init_server []" and n = 5]
  have "join_room (lit ''A'') (JObj \<lparr>jp_roomId = JUndefined, jp_room = JUndefined, jp_userId = JNum 1,
      jp_userName = JStr (lit ''Ann''), jp_role = JStr (lit ''student'')\<rparr>) (init_server [])
     = (init_server [], [])"
    using t [where d = "JObj \<lparr>jp_roomId = JUndefined, jp_room = JUndefined, jp_userId = JNum 1,
      jp_userName = JStr (lit ''Ann''), jp_role = JStr (lit ''student'')\<rparr>"]
    by (simp add: js_or_def example_rooms)
  moreover have "join_room (lit ''A'') (JPrim (JStr (lit ''null''))) (init_server []) = (init_server [], [])"
    using t [where d = "JPrim (JStr (lit ''null''))"] by (simp add: example_rooms)
  moreover have "join_room (lit ''A'') (JPrim JUndefined) (init_server []) = (init_server [], [Uncaught TypeError])"
    using t [where d = "JPrim JUndefined"] by simp
  moreover have "socket_rooms (fst (join_room (lit ''A'') (JPrim (JNum 5)) (init_server []))) = {(lit ''A'', lit ''5'')}"
    using t [where d = "JPrim (JNum 5)", THEN conjunct1]
    by (simp add: example_rooms) (simp add: init_server_def)
  moreover have "join_room (lit ''A'') (JPrim (JNum 5)) (init_server [])
       = join_room (lit ''A'') (JPrim (JStr (lit ''5''))) (init_server [])"
    using t [where d = "JPrim (JNum 5)", THEN conjunct2] by (simp add: example_rooms)
  ultimately show ?thesis by simp
qed


lemma one_entry_per_key:
  "distinct (map fst xs) \<Longrightarrow> k \<in> fst ` set xs \<Longrightarrow> length (filter (\<lambda>e. fst e = k) xs) = 1"
proof (induction xs)
  case Nil
  then show ?case by simp
next
  case (Cons x xs)
  show ?case
  proof (cases "fst x = k")
    case True
    with Cons.prems have "k \<notin> fst ` set xs" by auto
    then have "filter (\<lambda>e. fst e = k) xs = []" by (auto simp: filter_empty_conv)
    with True show ?thesis by simp
  next
    case False
    with Cons show ?thesis by auto
  qed
qed

lemma students_in_update:
  assumes "distinct (map fst ps)"
  shows "students_in (AList.update k w ps) =
         (students_in ps - {k}) \<union> (if role w = JStr (lit ''student'') then {k} else {})"
proof -
  have d: "distinct (map fst (AList.update k w ps))"
    using assms by (rule AList.distinct_update)
  have m: "map_of (AList.update k w ps) = (map_of ps)(k \<mapsto> w)"
    by (rule AList.update_conv')
  have in_iff: "(x \<in> students_in qs) = (\<exists>p. map_of qs x = Some p \<and> role p = JStr (lit ''student''))"
    if "distinct (map fst qs)" for x and qs :: participants
    using that by (auto simp add: students_in_def map_of_eq_Some_iff intro: rev_image_eqI)
  show ?thesis
    by (rule set_eqI) (simp add: in_iff [OF d] in_iff [OF assms] m)
qed

text \<open>
  Claim C9. In any reachable state, a connection joins a room with full identity and
  then joins the same room again with full identity. After the second join the room
  has the same connections in the same order as after the first, exactly one entry
  for the connection, holding the identity of the second join. When the role is the
  same, the second join publishes the same count; when the payload is the same, the
  second join leaves the state as it is.
\<close>

theorem repeated_join_overwrites:
  assumes r1: "join_roomId d1 = Some raw1" and r2: "join_roomId d2 = Some raw2"
    and same: "js_String raw2 = js_String raw1"
    and v: "valid_room (js_String raw1)"
    and f1: "full_identity (join_identity d1)" and f2: "full_identity (join_identity d2)"
  shows "let st = state_after lower rs (init_server fs);
             st1 = fst (join_room sid d1 st);
             st2 = fst (join_room sid d2 st1);
             room = js_String raw1
         in map fst (participants_of st2 room) = map fst (participants_of st1 room)
          \<and> length (filter (\<lambda>e. fst e = sid) (participants_of st2 room)) = 1
          \<and> map_of (participants_of st2 room) sid = Some (join_identity d2)
          \<and> (role (join_identity d2) = role (join_identity d1) \<longrightarrow>
                snd (join_room sid d2 st1) = snd (join_room sid d1 st))
          \<and> (d2 = d1 \<longrightarrow> join_room sid d2 st1 = (st1, snd (join_room sid d1 st)))"
proof -
  define st where "st = state_after lower rs (init_server fs)"
  define st1 where "st1 = fst (join_room sid d1 st)"
  define st2 where "st2 = fst (join_room sid d2 st1)"
  define room where "room = js_String raw1"
  define ps0 where "ps0 = participants_of st room"
  have v2: "valid_room (js_String raw2)" using v same by simp
  have wf: "wf_rooms (roomParticipants st)" unfolding st_def by (rule reachable_wf)
  have wf1: "wf_rooms (roomParticipants st1)" unfolding st1_def using wf by (rule join_room_wf)
  have wf2: "wf_rooms (roomParticipants st2)" unfolding st2_def using wf1 by (rule join_room_wf)
  have d0: "distinct (map fst ps0)" unfolding ps0_def using wf by (rule participants_distinct)
  have j1: "join_room sid d1 st =
       (st\<lparr>socket_rooms := insert (sid, room) (socket_rooms st),
           roomParticipants := AList.update room (AList.update sid (join_identity d1) ps0) (roomParticipants st)\<rparr>,
        emitActiveStudentCount room
          (AList.update room (AList.update sid (join_identity d1) ps0) (roomParticipants st)))"
    unfolding room_def ps0_def by (rule join_room_full [OF r1 v f1])
  have p1: "participants_of st1 room = AList.update sid (join_identity d1) ps0"
    by (simp add: st1_def j1 participants_of_def AList.update_conv')
  have j2: "join_room sid d2 st1 =
       (st1\<lparr>socket_rooms := insert (sid, room) (socket_rooms st1),
           roomParticipants := AList.update room (AList.update sid (join_identity d2) ps0) (roomParticipants st1)\<rparr>,
        emitActiveStudentCount room
          (AList.update room (AList.update sid (join_identity d2) ps0) (roomParticipants st1)))"
    using join_room_full [OF r2 v2 f2, of sid st1] by (simp add: same room_def [symmetric] p1)
  have p2: "participants_of st2 room = AList.update sid (join_identity d2) ps0"
    by (simp add: st2_def j2 participants_of_def AList.update_conv')
  have keys: "map fst (participants_of st2 room) = map fst (participants_of st1 room)"
    by (simp add: p1 p2 AList.update_keys)
  have one: "length (filter (\<lambda>e. fst e = sid) (participants_of st2 room)) = 1"
    unfolding p2 by (rule one_entry_per_key) (simp_all add: d0 AList.distinct_update AList.dom_update)
  have entry: "map_of (participants_of st2 room) sid = Some (join_identity d2)"
    by (simp add: p2 AList.update_conv')
  have e1: "snd (join_room sid d1 st) = [Emit (To room) (ActiveStudentCount room (active_count st1 room))]"
    using emit_active_count [OF wf1, of room] by (simp add: j1 st1_def)
  have e2: "snd (join_room sid d2 st1) = [Emit (To room) (ActiveStudentCount room (active_count st2 room))]"
    using emit_active_count [OF wf2, of room] by (simp add: j2 st2_def)
  have count: "snd (join_room sid d2 st1) = snd (join_room sid d1 st)"
    if "role (join_identity d2) = role (join_identity d1)"
    unfolding e1 e2 active_count_def p1 p2 using that by (simp add: students_in_update [OF d0])
  have rp1: "roomParticipants st1 = AList.update room (AList.update sid (join_identity d1) ps0) (roomParticipants st)"
    by (simp add: st1_def j1)
  have idem: "join_room sid d2 st1 = (st1, snd (join_room sid d1 st))" if "d2 = d1"
  proof -
    have same_state: "st1\<lparr>socket_rooms := insert (sid, room) (socket_rooms st1),
           roomParticipants := AList.update room (AList.update sid (join_identity d1) ps0) (roomParticipants st1)\<rparr> = st1"
      by (simp add: rp1) (simp add: st1_def j1 insert_absorb)
    have "fst (join_room sid d2 st1) = st1"
      unfolding j2 using same_state by (simp add: that)
    moreover have "snd (join_room sid d2 st1) = snd (join_room sid d1 st)"
      by (rule count) (simp add: that)
    ultimately show ?thesis
      by (simp add: prod_eq_iff)
  qed
  from keys one entry count idem show ?thesis
    unfolding Let_def st_def [symmetric] st1_def [symmetric] st2_def [symmetric] room_def [symmetric]
    by simp
qed


lemma ann_join_facts:
  "join_roomId ann_join = Some (JStr (lit ''R1''))" "full_identity (join_identity ann_join)"
  by (simp_all add: ann_join_def js_or_def full_identity_def lit_def)

theorem repeated_join_overwrites_witness:
  "join_roomId ann_join = Some (JStr (lit ''R1'')) \<and> valid_room (js_String (JStr (lit ''R1'')))
   \<and> full_identity (join_identity ann_join)
   \<and> length (filter (\<lambda>e. fst e = lit ''A'')
        (participants_of (fst (join_room (lit ''A'') ann_join
            (fst (join_room (lit ''A'') ann_join (state_after ascii_lower presence_run (init_server []))))))
          (lit ''R1''))) = 1
   \<and> join_room (lit ''A'') ann_join (fst (join_room (lit ''A'') ann_join (state_after ascii_lower presence_run (init_server []))))
       = (fst (join_room (lit ''A'') ann_join (state_after ascii_lower presence_run (init_server []))),
          snd (join_room (lit ''A'') ann_join (state_after ascii_lower presence_run (init_server []))))"
proof -
  have v: "valid_room (js_String (JStr (lit ''R1'')))" by (simp add: example_rooms)
  note t = repeated_join_overwrites [OF ann_join_facts(1) ann_join_facts(1) refl v ann_join_facts(2) ann_join_facts(2),
      where lower = ascii_lower and sid = "lit ''A''" and rs = presence_run and fs = "[]",
      unfolded Let_def js_String.simps]
  from t have a: "length (filter (\<lambda>e. fst e = lit ''A'')
        (participants_of (fst (join_room (lit ''A'') ann_join
            (fst (join_room (lit ''A'') ann_join (state_after ascii_lower presence_run (init_server []))))))
          (lit ''R1''))) = 1"
    by (elim conjE)
  from t have "ann_join = ann_join \<longrightarrow>
      join_room (lit ''A'') ann_join (fst (join_room (lit ''A'') ann_join (state_after ascii_lower presence_run (init_server []))))
       = (fst (join_room (lit ''A'') ann_join (state_after ascii_lower presence_run (init_server []))),
          snd (join_room (lit ''A'') ann_join (state_after ascii_lower presence_run (init_server []))))"
    by (elim conjE)
  then have b: "join_room (lit ''A'') ann_join (fst (join_room (lit ''A'') ann_join (state_after ascii_lower presence_run (init_server []))))
       = (fst (join_room (lit ''A'') ann_join (state_after ascii_lower presence_run (init_server []))),
          snd (join_room (lit ''A'') ann_join (state_after ascii_lower presence_run (init_server []))))"
    by (rule mp) (rule refl)
  from ann_join_facts(1) v ann_join_facts(2) a b show ?thesis
    by (intro conjI)
qed


section \<open>The pin route and the cohort of a message\<close>

lemma pin_loop_bodies:
  "e \<in> set (fst (snd (pin_loop lower c t b m r now seen us d))) \<Longrightarrow>
   (\<forall>i row. e = InsertNotification i row \<longrightarrow> n_message row = JStr b)
   \<and> (\<forall>tg n. e = Emit tg (NewNotification n) \<longrightarrow> nt_body n = JStr b)"
  by (induction lower c t b m r now seen us d rule: pin_loop.induct)
     (auto split: option.splits prod.splits if_splits)

lemma pin_system_message_no_notification:
  "e \<in> set (snd (pin_system_message m now d)) \<Longrightarrow> row_user e = [] \<and> notified_socket e = []"
  by (auto simp add: pin_system_message_def Let_def split: option.splits prod.splits)

lemma pin_message_unfold:
  "pin_message lower req (DbRow (Some message)) now st =
     (let d0 = (db st)\<lparr>faults := tl (faults (db st))\<rparr>;
          pinned = [Emit (To (pm_room message))
                      (MessagePinUpdated (JStr (pr_id req)) (pr_is_pinned req) (pm_room message)),
                    Respond 200]
      in if pr_role req \<noteq> JStr (lit ''representative'') then (st, [Respond 403])
         else if next_fault (faults (db st)) then (st\<lparr>db := d0\<rparr>, [Respond 500])
         else if \<not> truthy (pr_is_pinned req) then (st\<lparr>db := d0\<rparr>, pinned)
         else case messagePreview (pm_content message) of
                None \<Rightarrow> (st\<lparr>db := d0\<rparr>, [Uncaught TypeError])
              | Some preview \<Rightarrow>
                  (let L = pin_loop lower
                         (js_or (js_or (pm_roomStudyType message) (pm_senderStudyType message)) morning)
                         (pin_title_prefix @ js_String (js_or (js_or (pm_roomName message) (JStr (pm_room message)))
                                                              (JStr default_room_name)))
                         (notificationBody (pm_sender_name message) preview)
                         (pm_id message) (pm_room message) now {} (connectedUsers st) d0
                   in if snd (snd L) then (st\<lparr>db := fst L\<rparr>, Uncaught TypeError # fst (snd L))
                      else (st\<lparr>db := fst (pin_system_message message now (fst L))\<rparr>,
                            pinned @ fst (snd L) @ snd (pin_system_message message now (fst L)))))"
  by (simp add: pin_message_def update_pinned_def Let_def split: prod.splits option.splits bool.splits)

lemma pin_message_effects:
  assumes "e \<in> set (snd (pin_message lower req (DbRow (Some message)) now st))"
    and "row_user e \<noteq> [] \<or> notified_socket e \<noteq> []"
  shows "\<exists>preview. messagePreview (pm_content message) = Some preview
     \<and> e \<in> set (fst (snd (pin_loop lower
          (js_or (js_or (pm_roomStudyType message) (pm_senderStudyType message)) morning)
          (pin_title_prefix @ js_String (js_or (js_or (pm_roomName message) (JStr (pm_room message)))
                                               (JStr default_room_name)))
          (notificationBody (pm_sender_name message) preview)
          (pm_id message) (pm_room message) now {} (connectedUsers st)
          ((db st)\<lparr>faults := tl (faults (db st))\<rparr>))))"
proof -
  have sys: "e \<notin> set (snd (pin_system_message message now d))" for d
    using pin_system_message_no_notification [of e message now d] assms(2) by auto
  show ?thesis
    using assms sys
    by (auto simp add: pin_message_unfold Let_def split: if_splits option.splits)
qed

text \<open>
  Claim C8. When the content of the pinned message is a string, every notification
  row written and every \<^verbatim>\<open>new_notification\<close> emitted by the pin route has the body:
  the literal of \<open>pin_body_prefix\<close> (the Arabic word "from" and a space), the name of
  the sender, a colon and a space, and the preview. The preview is the content itself
  when it has at most 50 code units, and its first 50 code units followed by three
  dots when it is longer.
\<close>

theorem pin_notification_body:
  assumes "pm_content message = JStr content"
  shows "let body = pin_body_prefix @ js_String (pm_sender_name message) @ lit '': ''
                      @ (if length content \<le> 50 then content else take 50 content @ lit ''...'');
             effs = snd (pin_message lower req (DbRow (Some message)) now st)
         in (\<forall>i row. InsertNotification i row \<in> set effs \<longrightarrow> n_message row = JStr body)
          \<and> (\<forall>t n. Emit t (NewNotification n) \<in> set effs \<longrightarrow> nt_body n = JStr body)"
proof -
  define body where "body = pin_body_prefix @ js_String (pm_sender_name message) @ lit '': ''
                      @ (if length content \<le> 50 then content else take 50 content @ lit ''...'')"
  have b: "messagePreview (pm_content message) = Some preview \<Longrightarrow>
           notificationBody (pm_sender_name message) preview = body" for preview
    using assms by (auto simp add: body_def notificationBody_def)
  have "(\<forall>i row. e = InsertNotification i row \<longrightarrow> n_message row = JStr body)
      \<and> (\<forall>t n. e = Emit t (NewNotification n) \<longrightarrow> nt_body n = JStr body)"
    if e: "e \<in> set (snd (pin_message lower req (DbRow (Some message)) now st))" for e
  proof (cases "row_user e \<noteq> [] \<or> notified_socket e \<noteq> []")
    case True
    from pin_message_effects [OF e True] b pin_loop_bodies show ?thesis by metis
  next
    case False
    then show ?thesis by auto
  qed
  then show ?thesis
    unfolding Let_def body_def [symmetric] by blast
qed


lemma two_devices_users:
  "connectedUsers two_devices =
     [(lit ''A'', \<lparr>u_id = JNum 7, u_name = JStr (lit ''Ann''), u_role = JStr (lit ''student''),
         u_studyType = JStr (lit ''morning'')\<rparr>),
      (lit ''B'', \<lparr>u_id = JNum 7, u_name = JStr (lit ''Ann''), u_role = JStr (lit ''student''),
         u_studyType = JStr (lit ''Morning'')\<rparr>)]"
  "db two_devices = init_db\<lparr>faults := []\<rparr>"
  by (simp_all add: two_devices_def register_user_def init_server_def js_or_def lit_def Let_def)

lemma lower_morning:
  "toLowerCase ascii_lower (JStr (lit ''Morning'')) = Some (lit ''morning'')"
  "toLowerCase ascii_lower (JStr (lit ''morning'')) = Some (lit ''morning'')"
  "toLowerCase ascii_lower morning = Some (lit ''morning'')"
  by (simp_all add: lit_def ascii_lower_def lower_unit_def morning_def)

lemma lit_nonempty: "lit (c # cs) \<noteq> []"
  by (simp add: lit_def)

lemma pin_two_devices:
  "notified_sockets (snd (pin_message ascii_lower pin_req (DbRow (Some exam_message)) 1000 two_devices)) = [To (lit ''A'')]"
  "row_users (snd (pin_message ascii_lower pin_req (DbRow (Some exam_message)) 1000 two_devices)) = [JNum 7]"
  "notified_sockets (snd (pin_message ascii_lower pin_req (DbRow (Some long_message)) 1000 two_devices)) = [To (lit ''A'')]"
  by (simp_all add: pin_message_unfold pin_req_def exam_message_def long_message_def two_devices_users
        init_db_def Let_def js_or_def lower_morning lit_nonempty insert_notification_def
        insert_message_def pin_system_message_def notified_sockets_def row_users_def morning_def)


lemma pin_two_devices_events:
  "Emit (To (lit ''A'')) (NewNotification
      \<lparr>nt_id = 1, nt_title = pin_title_prefix @ lit ''R1'',
       nt_body = JStr (pin_body_prefix @ lit ''X: Exam moved to Monday''),
       nt_created_at = 1000, nt_data = PinnedMessage 12 (lit ''R1'')\<rparr>)
     \<in> set (snd (pin_message ascii_lower pin_req (DbRow (Some exam_message)) 1000 two_devices))"
  "Emit (To (lit ''A'')) (NewNotification
      \<lparr>nt_id = 1, nt_title = pin_title_prefix @ lit ''R1'',
       nt_body = JStr (pin_body_prefix @ lit ''X: '' @ replicate 50 0x61 @ lit ''...''),
       nt_created_at = 1000, nt_data = PinnedMessage 12 (lit ''R1'')\<rparr>)
     \<in> set (snd (pin_message ascii_lower pin_req (DbRow (Some long_message)) 1000 two_devices))"
  by (simp_all add: pin_message_unfold pin_req_def exam_message_def long_message_def two_devices_users
        init_db_def Let_def js_or_def lower_morning lit_nonempty insert_notification_def
        insert_message_def pin_system_message_def morning_def notificationBody_def)
     (simp_all add: lit_def)

theorem pin_notification_body_witness:
  "pm_content exam_message = JStr (lit ''Exam moved to Monday'')
   \<and> Emit (To (lit ''A'')) (NewNotification
        \<lparr>nt_id = 1, nt_title = pin_title_prefix @ lit ''R1'',
         nt_body = JStr (pin_body_prefix @ lit ''X: Exam moved to Monday''),
         nt_created_at = 1000, nt_data = PinnedMessage 12 (lit ''R1'')\<rparr>)
       \<in> set (snd (pin_message ascii_lower pin_req (DbRow (Some exam_message)) 1000 two_devices))
   \<and> pin_body_prefix @ js_String (pm_sender_name exam_message) @ lit '': '' @ lit ''Exam moved to Monday''
       = pin_body_prefix @ lit ''X: Exam moved to Monday''
   \<and> pm_content long_message = JStr (replicate 60 0x61)
   \<and> Emit (To (lit ''A'')) (NewNotification
        \<lparr>nt_id = 1, nt_title = pin_title_prefix @ lit ''R1'',
         nt_body = JStr (pin_body_prefix @ lit ''X: '' @ replicate 50 0x61 @ lit ''...''),
         nt_created_at = 1000, nt_data = PinnedMessage 12 (lit ''R1'')\<rparr>)
       \<in> set (snd (pin_message ascii_lower pin_req (DbRow (Some long_message)) 1000 two_devices))
   \<and> pin_body_prefix @ js_String (pm_sender_name long_message) @ lit '': ''
         @ take 50 (replicate 60 0x61) @ lit ''...''
       = pin_body_prefix @ lit ''X: '' @ replicate 50 0x61 @ lit ''...''"
proof -
  have c1: "pm_content exam_message = JStr (lit ''Exam moved to Monday'')"
    by (simp add: exam_message_def)
  have c2: "pm_content long_message = JStr (replicate 60 0x61)"
    by (simp add: long_message_def)
  have l1: "length (lit ''Exam moved to Monday'') \<le> 50" by (simp add: lit_def)
  from pin_notification_body [OF c1, where lower = ascii_lower and req = pin_req and now = 1000 and st = two_devices,
      unfolded Let_def, THEN conjunct2, rule_format, OF pin_two_devices_events(1)]
  have b1: "pin_body_prefix @ js_String (pm_sender_name exam_message) @ lit '': '' @ lit ''Exam moved to Monday''
       = pin_body_prefix @ lit ''X: Exam moved to Monday''"
    by (simp add: l1)
  from pin_notification_body [OF c2, where lower = ascii_lower and req = pin_req and now = 1000 and st = two_devices,
      unfolded Let_def, THEN conjunct2, rule_format, OF pin_two_devices_events(2)]
  have b2: "pin_body_prefix @ js_String (pm_sender_name long_message) @ lit '': ''
         @ take 50 (replicate 60 0x61) @ lit ''...''
       = pin_body_prefix @ lit ''X: '' @ replicate 50 0x61 @ lit ''...''"
    by simp
  from c1 pin_two_devices_events(1) b1 c2 pin_two_devices_events(2) b2 show ?thesis by (intro conjI)
qed

text \<open>
  Claim C6, where the code departs from it: a message sent without a cohort is
  broadcast with the cohort \<^verbatim>\<open>'evening'\<close>, not with the default \<^verbatim>\<open>'morning'\<close> that
  \<^verbatim>\<open>register_user\<close> and the fan-out loops use.
\<close>

theorem message_cohort_default_evening:
  "md_studyType msg1 = JUndefined
   \<and> message_cohorts (snd (send_message (lit ''A'') 1000 (Some msg1) (init_server []))) = [JStr (lit ''evening'')]
   \<and> JStr (lit ''evening'') \<noteq> morning"
  by (simp add: message_cohorts_def send_message_def msg1_def init_server_def init_db_def duplicate_def
        insert_message_def js_or_def Let_def morning_def) (simp add: lit_def)


section \<open>Rows and deliveries of the fan-outs\<close>

lemma row_users_simps:
  "row_users [] = []"
  "row_users (InsertNotification i row # effs) = n_user_id row # row_users effs"
  "row_users (Emit t ev # effs) = row_users effs"
  "row_users (Respond k # effs) = row_users effs"
  by (simp_all add: row_users_def)

lemma notified_sockets_simps:
  "notified_sockets [] = []"
  "notified_sockets (InsertNotification i row # effs) = notified_sockets effs"
  "notified_sockets (Emit t (NewNotification n) # effs) = t # notified_sockets effs"
  "notified_sockets (Emit t (MessagePinUpdated mid p r) # effs) = notified_sockets effs"
  "notified_sockets (Respond k # effs) = notified_sockets effs"
  by (simp_all add: notified_sockets_def)

lemmas fanout_eval = two_devices_users js_or_def morning_def ascii_lower_def lower_unit_def alert_def
  algebra_update_def lit_def insert_notification_def init_db_def Let_def

text \<open>
  Claim C4, where the code departs from it. One user (id 7) has the two connections A
  and B, both of the cohort morning, and no statement fails. The manual notification
  and the lecture update emit \<^verbatim>\<open>new_notification\<close> to both connections, and write two
  rows for the one user. The pin, which keeps the set of the users already notified,
  writes one row for the user, and emits \<^verbatim>\<open>new_notification\<close> to A only: B, a
  connection of that user, gets no event.
\<close>

theorem two_devices_rows_and_events:
  "map (u_id \<circ> snd) (connectedUsers two_devices) = [JNum 7, JNum 7]
   \<and> map fst (connectedUsers two_devices) = [lit ''A'', lit ''B'']
   \<and> row_users (snd (send_notification ascii_lower (lit ''P'') 1000 (Some alert) two_devices))
       = [JNum 7, JNum 7]
   \<and> notified_sockets (snd (send_notification ascii_lower (lit ''P'') 1000 (Some alert) two_devices))
       = [To (lit ''A''), To (lit ''B'')]
   \<and> row_users (snd (lecture_update_notify ascii_lower algebra_update 1000 two_devices))
       = [JNum 7, JNum 7]
   \<and> notified_sockets (snd (lecture_update_notify ascii_lower algebra_update 1000 two_devices))
       = [To (lit ''A''), To (lit ''B'')]
   \<and> row_users (snd (pin_message ascii_lower pin_req (DbRow (Some exam_message)) 1000 two_devices))
       = [JNum 7]
   \<and> notified_sockets (snd (pin_message ascii_lower pin_req (DbRow (Some exam_message)) 1000 two_devices))
       = [To (lit ''A'')]"
proof -
  have a: "map (u_id \<circ> snd) (connectedUsers two_devices) = [JNum 7, JNum 7]"
    and b: "map fst (connectedUsers two_devices) = [lit ''A'', lit ''B'']"
    by (simp_all add: two_devices_users)
  have c: "row_users (snd (send_notification ascii_lower (lit ''P'') 1000 (Some alert) two_devices))
       = [JNum 7, JNum 7]"
    and d: "notified_sockets (snd (send_notification ascii_lower (lit ''P'') 1000 (Some alert) two_devices))
       = [To (lit ''A''), To (lit ''B'')]"
    by (simp_all add: send_notification_def fanout_eval row_users_simps notified_sockets_simps)
  have e: "row_users (snd (lecture_update_notify ascii_lower algebra_update 1000 two_devices))
       = [JNum 7, JNum 7]"
    and f: "notified_sockets (snd (lecture_update_notify ascii_lower algebra_update 1000 two_devices))
       = [To (lit ''A''), To (lit ''B'')]"
    by (simp_all add: lecture_update_notify_def fanout_eval row_users_simps notified_sockets_simps)
  from a b c d e f pin_two_devices(2) pin_two_devices(1) show ?thesis by (intro conjI)
qed

end
